theory Spec2Isabelle
  imports Main "HOL-Library.Sublist"
begin

section \<open>JavaScript strings\<close>

text \<open>
  Strings are byte strings (\<^typ>\<open>string\<close>). The characters that Isabelle's string
  literals cannot hold are named here.
\<close>

definition squote :: char where
  "squote = CHR 0x27"

definition dquote :: char where
  "dquote = CHR 0x22"

definition backslash :: char where
  "backslash = CHR 0x5C"

definition newline :: char where
  "newline = CHR 0x0A"

text \<open>\<^verbatim>\<open>String.prototype.toLowerCase\<close>, on the ASCII letters.\<close>

definition lower_char :: "char \<Rightarrow> char" where
  "lower_char c =
     (case map_of (zip ''ABCDEFGHIJKLMNOPQRSTUVWXYZ'' ''abcdefghijklmnopqrstuvwxyz'') c of
        Some d \<Rightarrow> d
      | None \<Rightarrow> c)"

definition toLowerCase :: "string \<Rightarrow> string" where
  "toLowerCase s = map lower_char s"

text \<open>\<^verbatim>\<open>Array.prototype.join(sep)\<close>.\<close>

fun join_with :: "string \<Rightarrow> string list \<Rightarrow> string" where
  "join_with sep [] = []"
| "join_with sep [x] = x"
| "join_with sep (x # y # ys) = x @ sep @ join_with sep (y # ys)"

text \<open>\<^verbatim>\<open>String.prototype.includes\<close> and \<^verbatim>\<open>String.prototype.endsWith\<close>.\<close>

definition str_includes :: "string \<Rightarrow> string \<Rightarrow> bool" where
  "str_includes s sub \<longleftrightarrow> sublist sub s"

definition endsWith :: "string \<Rightarrow> string \<Rightarrow> bool" where
  "endsWith s suf \<longleftrightarrow> suffix suf s"

section \<open>Errors\<close>

text \<open>
  What ends an asynchronous function of the scripts early: \<^verbatim>\<open>new Error(message)\<close>
  thrown by the script, a failure of a platform call, or \<^verbatim>\<open>process.exit\<close>.
\<close>

datatype error =
    Error string          \<comment> \<open>\<^verbatim>\<open>throw new Error(message)\<close> of the scripts\<close>
  | ENOENT string         \<comment> \<open>a file-system call on a path that does not exist\<close>
  | EINVAL string         \<comment> \<open>\<^verbatim>\<open>rename\<close> of a directory into itself\<close>
  | EISDIR string         \<comment> \<open>reading or writing a directory as a file\<close>
  | ENOTDIR string        \<comment> \<open>a path that runs through a file as if it were a directory\<close>
  | EEXIST string         \<comment> \<open>\<^verbatim>\<open>mkdir\<close> of a path that holds a file\<close>
  | SyntaxError string    \<comment> \<open>\<^verbatim>\<open>JSON.parse\<close> of a file that holds no JSON document\<close>
  | TypeError string      \<comment> \<open>a property read or written on \<^verbatim>\<open>null\<close> or a non-object\<close>
  | ShellError nat        \<comment> \<open>a \<^verbatim>\<open>$\<close> shell command that exits non-zero\<close>
  | ProcessExit nat       \<comment> \<open>\<^verbatim>\<open>process.exit(code)\<close>: not an error, the end of the process\<close>

section \<open>Release metadata and asset selection\<close>

text \<open>
  \<^verbatim>\<open>src/script/download-offline-deps.ts\<close>: the document of the "latest release"
  endpoint, as \<^verbatim>\<open>downloadClangd\<close> and \<^verbatim>\<open>downloadRustAnalyzer\<close> type it.
\<close>

record asset =
  name :: string
  browser_download_url :: string

record release =
  tag_name :: string
  assets :: "asset list"

text \<open>The predicate of \<^verbatim>\<open>downloadClangd\<close>:
  \<^verbatim>\<open>a => a.name.includes("linux") && a.name.includes(tag) && a.name.endsWith(".zip")\<close>.\<close>

definition clangd_asset_pred :: "string \<Rightarrow> asset \<Rightarrow> bool" where
  "clangd_asset_pred tag a \<longleftrightarrow>
     str_includes (name a) ''linux'' \<and> str_includes (name a) tag \<and> endsWith (name a) ''.zip''"

text \<open>The predicate of \<^verbatim>\<open>downloadRustAnalyzer\<close>:
  \<^verbatim>\<open>a => a.name === "rust-analyzer-x86_64-unknown-linux-gnu.gz"\<close>.\<close>

definition rust_analyzer_asset_pred :: "asset \<Rightarrow> bool" where
  "rust_analyzer_asset_pred a \<longleftrightarrow> name a = ''rust-analyzer-x86_64-unknown-linux-gnu.gz''"

text \<open>\<^verbatim>\<open>release.assets.find(pred)\<close> followed by \<^verbatim>\<open>if (!asset) throw new Error(...)\<close>.\<close>

definition find_clangd_asset :: "release \<Rightarrow> error + asset" where
  "find_clangd_asset rel =
     (case find (clangd_asset_pred (tag_name rel)) (assets rel) of
        None \<Rightarrow> Inl (Error ''Could not find clangd Linux asset'')
      | Some a \<Rightarrow> Inr a)"

definition find_rust_analyzer_asset :: "release \<Rightarrow> error + asset" where
  "find_rust_analyzer_asset rel =
     (case find rust_analyzer_asset_pred (assets rel) of
        None \<Rightarrow> Inl (Error ''Could not find rust-analyzer Linux asset'')
      | Some a \<Rightarrow> Inr a)"

section \<open>Request capture: rendering a request as a curl command\<close>

text \<open>
  \<^verbatim>\<open>src/packages/opencode/src/session/request-capture.ts\<close>.
  The \<^verbatim>\<open>headers\<close> object is the list of its entries in the order
  \<^verbatim>\<open>Object.entries\<close> yields them.
\<close>

record CapturedRequest =
  sessionID :: string
  timestamp :: int
  url :: string
  http_method :: string  \<comment> \<open>the field \<^verbatim>\<open>method\<close>\<close>
  headers :: "(string \<times> string) list"
  body :: string

text \<open>\<^verbatim>\<open>ToCurlOptions\<close>: the field is optional, \<open>None\<close> is \<^verbatim>\<open>undefined\<close>.\<close>

record ToCurlOptions =
  includeAuth :: "bool option"

text \<open>\<^verbatim>\<open>str.replace(/'/g, "'\\''")\<close>: every single quote becomes the four characters
  quote, backslash, quote, quote.\<close>

definition shellEscape :: "string \<Rightarrow> string" where
  "shellEscape str =
     concat (map (\<lambda>c. if c = squote then [squote, backslash, squote, squote] else [c]) str)"

text \<open>The part pushed for one header: \<^verbatim>\<open>-H '${shellEscape(key)}: ${shellEscape(value)}'\<close>.\<close>

definition header_part :: "string \<Rightarrow> string \<Rightarrow> string" where
  "header_part key val =
     ''-H '' @ [squote] @ shellEscape key @ '': '' @ shellEscape val @ [squote]"

text \<open>The loop over the header entries of \<^verbatim>\<open>toCurl\<close>, with its two \<^verbatim>\<open>continue\<close>s;
  the result is the list of parts the loop pushes.\<close>

fun toCurl_headers :: "bool \<Rightarrow> (string \<times> string) list \<Rightarrow> string list" where
  "toCurl_headers incl [] = []"
| "toCurl_headers incl ((key, val) # rest) =
     (if \<not> incl \<and> (toLowerCase key = ''authorization'' \<or> toLowerCase key = ''x-api-key'')
      then toCurl_headers incl rest
      else if toLowerCase key = ''content-length''
      then toCurl_headers incl rest
      else header_part key val # toCurl_headers incl rest)"

definition toCurl :: "CapturedRequest \<Rightarrow> ToCurlOptions \<Rightarrow> string" where
  "toCurl request options =
     (let incl = (case includeAuth options of None \<Rightarrow> True | Some b \<Rightarrow> b);
          parts = [''curl'']
            @ [''-X '' @ http_method request]
            @ [[squote] @ shellEscape (url request) @ [squote]]
            @ toCurl_headers incl (headers request)
            @ (if body request \<noteq> []
               then [''-d '' @ [squote] @ shellEscape (body request) @ [squote]]
               else [])
      in join_with ('' '' @ [backslash, newline] @ ''  '') parts)"

text \<open>The header names \<^verbatim>\<open>toCurl\<close> treats as credentials, and the one it always drops.\<close>

definition is_auth_header :: "string \<Rightarrow> bool" where
  "is_auth_header key \<longleftrightarrow>
     toLowerCase key = ''authorization'' \<or> toLowerCase key = ''x-api-key''"

definition is_content_length :: "string \<Rightarrow> bool" where
  "is_content_length key \<longleftrightarrow> toLowerCase key = ''content-length''"

text \<open>Two header lists that differ only in the values of credential headers.\<close>

definition same_but_auth_values :: "(string \<times> string) list \<Rightarrow> (string \<times> string) list \<Rightarrow> bool" where
  "same_but_auth_values hs hs' \<longleftrightarrow>
     list_all2 (\<lambda>h h'. fst h = fst h' \<and> (is_auth_header (fst h) \<or> snd h = snd h')) hs hs'"


section \<open>Paths: \<^verbatim>\<open>path.join\<close>\<close>

text \<open>
  The scripts and the resolver build every path with \<^verbatim>\<open>path.join\<close> of the platform's
  \<^verbatim>\<open>path\<close> module (POSIX flavour). It is modelled after Node's \<^verbatim>\<open>lib/path.js\<close>:
  \<^verbatim>\<open>join\<close> glues the non-empty arguments with a slash and normalises the result;
  \<^verbatim>\<open>normalizeString\<close> walks the segments between slashes, skips empty segments and
  \<^verbatim>\<open>.\<close>, and lets \<^verbatim>\<open>..\<close> remove the segment before it (or, in a relative path with
  nothing left to remove, stay). Here \<^verbatim>\<open>normalizeString\<close> returns the list of the
  segments it keeps; \<^verbatim>\<open>normalize\<close> joins them with slashes.
\<close>

text \<open>\<^verbatim>\<open>String.prototype.split(sep)\<close> for a one-character separator.\<close>

fun split_on :: "char \<Rightarrow> string \<Rightarrow> string list" where
  "split_on c [] = [[]]"
| "split_on c (x # xs) =
     (if x = c then [] # split_on c xs
      else (case split_on c xs of [] \<Rightarrow> [[x]] | s # ss \<Rightarrow> (x # s) # ss))"

definition normalize_step :: "bool \<Rightarrow> string list \<Rightarrow> string \<Rightarrow> string list" where
  "normalize_step allowAboveRoot res seg =
     (if seg = [] \<or> seg = ''.'' then res
      else if seg = ''..'' then
        (if res \<noteq> [] \<and> last res \<noteq> ''..'' then butlast res
         else if allowAboveRoot then res @ [''..'']
         else res)
      else res @ [seg])"

definition normalizeString :: "string \<Rightarrow> bool \<Rightarrow> string list" where
  "normalizeString path allowAboveRoot =
     foldl (normalize_step allowAboveRoot) [] (split_on CHR ''/'' path)"

definition isAbsolute :: "string \<Rightarrow> bool" where
  "isAbsolute path \<longleftrightarrow> (case path of [] \<Rightarrow> False | c # _ \<Rightarrow> c = CHR ''/'')"

definition normalize :: "string \<Rightarrow> string" where
  "normalize path =
     (if path = [] then ''.''
      else
        let trailingSeparator = (last path = CHR ''/'');
            p = join_with ''/'' (normalizeString path (\<not> isAbsolute path))
        in if p = []
           then (if isAbsolute path then ''/'' else if trailingSeparator then ''./'' else ''.'')
           else (if isAbsolute path then ''/'' else [])
                  @ p @ (if trailingSeparator then ''/'' else []))"

definition path_join :: "string list \<Rightarrow> string" where
  "path_join args =
     (case filter (\<lambda>arg. arg \<noteq> []) args of
        [] \<Rightarrow> ''.''
      | parts \<Rightarrow> normalize (join_with ''/'' parts))"

text \<open>
  The segments a path resolves to, and what it means for a path to lie under a
  directory: both are absolute or both relative, and the segments of the path start with
  those of the directory.
\<close>

definition path_segments :: "string \<Rightarrow> string list" where
  "path_segments p = normalizeString p (\<not> isAbsolute p)"

definition lies_under :: "string \<Rightarrow> string \<Rightarrow> bool" where
  "lies_under d p \<longleftrightarrow>
     isAbsolute p = isAbsolute d \<and> prefix (path_segments d) (path_segments p)"

text \<open>A name none of whose segments is \<^verbatim>\<open>..\<close>.\<close>

definition no_parent_segment :: "string \<Rightarrow> bool" where
  "no_parent_segment s \<longleftrightarrow> ''..'' \<notin> set (split_on CHR ''/'' s)"

text \<open>Segments as \<^verbatim>\<open>normalizeString\<close> leaves them: a run of \<^verbatim>\<open>..\<close> (in a relative
  path only), then segments that are neither empty, \<^verbatim>\<open>.\<close> nor \<^verbatim>\<open>..\<close>.\<close>

definition plain_seg :: "string \<Rightarrow> bool" where
  "plain_seg s \<longleftrightarrow> s \<noteq> [] \<and> s \<noteq> ''.'' \<and> s \<noteq> ''..'' \<and> CHR ''/'' \<notin> set s"

definition canonical :: "bool \<Rightarrow> string list \<Rightarrow> bool" where
  "canonical allow S \<longleftrightarrow>
     (\<exists>n T. S = replicate n ''..'' @ T \<and> list_all plain_seg T \<and> (allow \<or> n = 0))"

section \<open>The offline path resolver\<close>

text \<open>
  \<^verbatim>\<open>src/packages/opencode/src/offline/index.ts\<close>. The module \<^verbatim>\<open>Flag\<close> it reads is
  not among the sources; its two values are taken as a parameter: the offline-mode
  boolean and the dependency path, \<open>None\<close> when the variable is not set.
\<close>

record Flag =
  OPENCODE_OFFLINE_MODE :: bool
  OPENCODE_OFFLINE_DEPS_PATH :: "string option"

definition isEnabled :: "Flag \<Rightarrow> bool" where
  "isEnabled flag = OPENCODE_OFFLINE_MODE flag"

definition getDepsPath :: "Flag \<Rightarrow> string option" where
  "getDepsPath flag = OPENCODE_OFFLINE_DEPS_PATH flag"

text \<open>
  The guard \<^verbatim>\<open>if (!isEnabled() || !depsPath) return undefined\<close>: \<^verbatim>\<open>!depsPath\<close> holds
  for \<^verbatim>\<open>undefined\<close> and for the empty string.
\<close>

definition resolveBinary :: "Flag \<Rightarrow> string \<Rightarrow> string \<Rightarrow> string option" where
  "resolveBinary flag name' subpath =
     (case getDepsPath flag of
        None \<Rightarrow> None
      | Some depsPath \<Rightarrow>
          if \<not> isEnabled flag \<or> depsPath = [] then None
          else Some (path_join [depsPath, subpath, name']))"

definition resolveNpmPackage :: "Flag \<Rightarrow> string \<Rightarrow> string option" where
  "resolveNpmPackage flag pkg =
     (case getDepsPath flag of
        None \<Rightarrow> None
      | Some depsPath \<Rightarrow>
          if \<not> isEnabled flag \<or> depsPath = [] then None
          else Some (path_join [depsPath, ''node_modules'', pkg]))"

definition resolveLspBinary :: "Flag \<Rightarrow> string \<Rightarrow> string \<Rightarrow> string option" where
  "resolveLspBinary flag lspName binaryName =
     (case getDepsPath flag of
        None \<Rightarrow> None
      | Some depsPath \<Rightarrow>
          if \<not> isEnabled flag \<or> depsPath = [] then None
          else Some (path_join [depsPath, ''lsp'', lspName, ''bin'', binaryName]))"


section \<open>Numbers as text\<close>

text \<open>The decimal text of a non-negative integer, as a template literal renders it.\<close>

fun show_nat :: "nat \<Rightarrow> string" where
  "show_nat n =
     (if n < 10 then [''0123456789'' ! n]
      else show_nat (n div 10) @ [''0123456789'' ! (n mod 10)])"

declare show_nat.simps [simp del]

definition show_int :: "int \<Rightarrow> string" where
  "show_int i = (if i < 0 then ''-'' @ show_nat (nat (- i)) else show_nat (nat i))"

section \<open>JSON values\<close>

text \<open>
  A JSON value; an object is the list of its own properties in enumeration order
  (what \<^verbatim>\<open>Object.entries\<close> yields).
\<close>

datatype json =
    JNull
  | JBool bool
  | JNum int
  | JStr string
  | JArr "json list"
  | JObj "(string \<times> json) list"

text \<open>\<^verbatim>\<open>obj[key] = value\<close> on the property list of an object: an existing property keeps
  its place, a new one goes last.\<close>

fun set_entry :: "string \<Rightarrow> json \<Rightarrow> (string \<times> json) list \<Rightarrow> (string \<times> json) list" where
  "set_entry k v [] = [(k, v)]"
| "set_entry k v ((k', v') # kvs) =
     (if k' = k then (k, v) # kvs else (k', v') # set_entry k v kvs)"

text \<open>\<^verbatim>\<open>Object.entries(value)\<close>.\<close>

definition entries_of :: "json \<Rightarrow> (string \<times> json) list" where
  "entries_of j =
     (case j of
        JObj kvs \<Rightarrow> kvs
      | JArr xs \<Rightarrow> map (\<lambda>i. (show_nat i, xs ! i)) [0..<length xs]
      | JStr s \<Rightarrow> map (\<lambda>i. (show_nat i, JStr [s ! i])) [0..<length s]
      | _ \<Rightarrow> [])"

text \<open>JavaScript truthiness of a JSON value.\<close>

definition truthy :: "json \<Rightarrow> bool" where
  "truthy j =
     (case j of
        JNull \<Rightarrow> False
      | JBool b \<Rightarrow> b
      | JNum n \<Rightarrow> n \<noteq> 0
      | JStr s \<Rightarrow> s \<noteq> []
      | _ \<Rightarrow> True)"

section \<open>The world of a script: files, console, subprocesses\<close>

text \<open>
  The scripts act on the file system, the console and subprocesses, and read the
  network, the clock and the process environment. The state they change is a record
  (\<open>world\<close>); what the outside answers is a record of functions (\<open>env\<close>). An
  asynchronous function of the scripts is a function from the world to a result and the
  world it leaves; \<^verbatim>\<open>await\<close> is sequencing and a throw is the result \<open>Inl\<close>.

  A file holds bytes or a JSON document. A JSON text is represented by the value it
  denotes: \<^verbatim>\<open>JSON.stringify\<close> writes the value and \<^verbatim>\<open>JSON.parse\<close> reads it back.

  Failures of the platform that do not depend on this state (a network that cannot be
  reached, permissions, a full disk, a missing executable) are outside the model; a
  file-system call on a path that does not exist fails with \<open>ENOENT\<close>; a read, a write
  or a \<^verbatim>\<open>mkdir\<close> that meets a directory where it needs a file, or a file where it
  needs a directory, fails with \<open>EISDIR\<close>, \<open>ENOTDIR\<close> or \<open>EEXIST\<close>.
\<close>

type_synonym path = string

datatype content = Bytes string | JsonDoc json

datatype node = File content nat | Dir

type_synonym fs = "path \<Rightarrow> node option"

record world =
  files :: fs
  out_log :: "string list"      \<comment> \<open>lines of \<^verbatim>\<open>console.log\<close>\<close>
  err_log :: "string list"      \<comment> \<open>lines of \<^verbatim>\<open>console.error\<close>\<close>
  spawned :: "(string \<times> string list) list"
                                \<comment> \<open>working directory and command line of every subprocess run\<close>

record response =
  ok :: bool
  status :: nat
  statusText :: string
  arrayBuffer :: string
  json_body :: release          \<comment> \<open>\<^verbatim>\<open>await response.json() as {tag_name, assets}\<close>\<close>

record proc =
  exitCode :: nat
  stdout :: string
  stderr :: string
  files_after :: fs             \<comment> \<open>the files once the subprocess has exited\<close>

record env =
  fetch :: "string \<Rightarrow> response"
  run :: "string \<Rightarrow> string list \<Rightarrow> fs \<Rightarrow> proc"
      \<comment> \<open>working directory (empty: the script's), command line, files before\<close>
  now :: string                 \<comment> \<open>\<^verbatim>\<open>new Date().toISOString()\<close>\<close>
  process_env :: "string \<Rightarrow> string option"
  listing :: "path \<Rightarrow> string list"
      \<comment> \<open>the order in which \<^verbatim>\<open>readdir\<close> lists the names of a directory\<close>

type_synonym 'a io = "world \<Rightarrow> (error + 'a) \<times> world"

definition ret :: "'a \<Rightarrow> 'a io" where
  "ret x w = (Inr x, w)"

definition throw :: "error \<Rightarrow> 'a io" where
  "throw e w = (Inl e, w)"

definition bindIO :: "'a io \<Rightarrow> ('a \<Rightarrow> 'b io) \<Rightarrow> 'b io" where
  "bindIO m f w = (case m w of (Inl e, w') \<Rightarrow> (Inl e, w') | (Inr x, w') \<Rightarrow> f x w')"

definition thenIO :: "unit io \<Rightarrow> 'a io \<Rightarrow> 'a io" where
  "thenIO m n = bindIO m (\<lambda>_. n)"

definition lift :: "error + 'a \<Rightarrow> 'a io" where
  "lift r w = (r, w)"


definition console_log :: "string \<Rightarrow> unit io" where
  "console_log s w = (Inr (), w\<lparr>out_log := out_log w @ [s]\<rparr>)"


subsection \<open>File-system calls\<close>

text \<open>\<open>under d q\<close>: the path \<open>q\<close> is \<open>d\<close> or lies inside the directory \<open>d\<close>.\<close>

definition under :: "path \<Rightarrow> path \<Rightarrow> bool" where
  "under d q \<longleftrightarrow> q = d \<or> prefix (d @ ''/'') q"

text \<open>The directories above a path: \<^verbatim>\<open>a\<close> and \<^verbatim>\<open>a/b\<close> for \<^verbatim>\<open>a/b/c\<close>.\<close>

definition path_ancestors :: "path \<Rightarrow> path list" where
  "path_ancestors p = map (\<lambda>i. take i p) (filter (\<lambda>i. p ! i = CHR ''/'') [1..<length p])"

definition make_dirs :: "path list \<Rightarrow> fs \<Rightarrow> fs" where
  "make_dirs ps f = (\<lambda>q. if q \<in> set ps \<and> f q = None then Some Dir else f q)"

text \<open>A path holds a file.\<close>

definition is_file :: "fs \<Rightarrow> path \<Rightarrow> bool" where
  "is_file f p \<longleftrightarrow> (case f p of Some (File _ _) \<Rightarrow> True | _ \<Rightarrow> False)"

text \<open>The directory a new entry goes into does not exist.\<close>

definition parent_missing :: "fs \<Rightarrow> path \<Rightarrow> bool" where
  "parent_missing f p \<longleftrightarrow> path_ancestors p \<noteq> [] \<and> f (last (path_ancestors p)) = None"

text \<open>\<^verbatim>\<open>fs.rm(p, { recursive: true, force: true })\<close>.\<close>

definition fs_rm :: "path \<Rightarrow> unit io" where
  "fs_rm p w = (Inr (), w\<lparr>files := (\<lambda>q. if under p q then None else files w q)\<rparr>)"

text \<open>\<^verbatim>\<open>fs.mkdir(p, { recursive: true })\<close>: it fails with \<open>ENOTDIR\<close> when a file lies on
  the way to \<open>p\<close> and with \<open>EEXIST\<close> when \<open>p\<close> is a file; a directory that exists is
  left as it is.\<close>

definition mkdir_error :: "fs \<Rightarrow> path \<Rightarrow> error option" where
  "mkdir_error f p =
     (if \<exists>a \<in> set (path_ancestors p). is_file f a then Some (ENOTDIR p)
      else if is_file f p then Some (EEXIST p)
      else None)"

definition fs_mkdir :: "path \<Rightarrow> unit io" where
  "fs_mkdir p w =
     (case mkdir_error (files w) p of
        Some err \<Rightarrow> (Inl err, w)
      | None \<Rightarrow> (Inr (), w\<lparr>files := make_dirs (path_ancestors p @ [p]) (files w)\<rparr>))"

text \<open>\<^verbatim>\<open>Bun.write(p, data)\<close>: it fails with \<open>EISDIR\<close> when \<open>p\<close> is a directory and
  with \<open>ENOTDIR\<close> when a file lies on the way to \<open>p\<close>, and then writes nothing.
  Otherwise it creates the directories above \<open>p\<close> and writes the file; a new file gets
  mode \<^verbatim>\<open>0o644\<close>, an existing one keeps its mode.\<close>

definition write_error :: "fs \<Rightarrow> path \<Rightarrow> error option" where
  "write_error f p =
     (if f p = Some Dir then Some (EISDIR p)
      else if \<exists>a \<in> set (path_ancestors p). is_file f a then Some (ENOTDIR p)
      else None)"

definition Bun_write :: "path \<Rightarrow> content \<Rightarrow> unit io" where
  "Bun_write p c w =
     (case write_error (files w) p of
        Some err \<Rightarrow> (Inl err, w)
      | None \<Rightarrow>
          (Inr (), w\<lparr>files := (make_dirs (path_ancestors p) (files w))
             (p \<mapsto> File c (case files w p of Some (File _ m) \<Rightarrow> m | _ \<Rightarrow> 420))\<rparr>))"

text \<open>\<^verbatim>\<open>fs.unlink(p)\<close>.\<close>

definition fs_unlink :: "path \<Rightarrow> unit io" where
  "fs_unlink p w =
     (case files w p of
        None \<Rightarrow> (Inl (ENOENT p), w)
      | Some Dir \<Rightarrow> (Inl (EISDIR p), w)
      | Some (File _ _) \<Rightarrow> (Inr (), w\<lparr>files := (files w)(p := None)\<rparr>))"

text \<open>\<^verbatim>\<open>fs.chmod(p, mode)\<close>; the model keeps no mode for a directory.\<close>

definition fs_chmod :: "path \<Rightarrow> nat \<Rightarrow> unit io" where
  "fs_chmod p mode w =
     (case files w p of
        None \<Rightarrow> (Inl (ENOENT p), w)
      | Some Dir \<Rightarrow> (Inr (), w)
      | Some (File c _) \<Rightarrow> (Inr (), w\<lparr>files := (files w)(p \<mapsto> File c mode)\<rparr>))"

text \<open>\<^verbatim>\<open>fs.rename(src, dst)\<close>: the entry \<open>src\<close> and all below it move to \<open>dst\<close>.\<close>

definition fs_rename :: "path \<Rightarrow> path \<Rightarrow> unit io" where
  "fs_rename src dst w =
     (if files w src = None \<or> parent_missing (files w) dst then (Inl (ENOENT src), w)
      else if dst = src then (Inr (), w)
      else if under src dst then (Inl (EINVAL dst), w)
      else (Inr (), w\<lparr>files :=
        (\<lambda>q. if under dst q then files w (src @ drop (length dst) q)
              else if under src q then None
              else files w q)\<rparr>))"

text \<open>\<^verbatim>\<open>fs.copyFile(src, dst)\<close>: the copy fails as a write of \<open>dst\<close> does.\<close>

definition fs_copyFile :: "path \<Rightarrow> path \<Rightarrow> unit io" where
  "fs_copyFile src dst w =
     (case files w src of
        None \<Rightarrow> (Inl (ENOENT src), w)
      | Some Dir \<Rightarrow> (Inl (EISDIR src), w)
      | Some (File c m) \<Rightarrow>
          if parent_missing (files w) dst then (Inl (ENOENT dst), w)
          else (case write_error (files w) dst of
                  Some err \<Rightarrow> (Inl err, w)
                | None \<Rightarrow> (Inr (), w\<lparr>files := (files w)(dst \<mapsto> File c m)\<rparr>)))"

text \<open>\<^verbatim>\<open>fs.readFile(p, "utf-8")\<close> and \<^verbatim>\<open>Bun.file(p)\<close>'s content.\<close>

definition fs_readFile :: "path \<Rightarrow> content io" where
  "fs_readFile p w =
     (case files w p of
        None \<Rightarrow> (Inl (ENOENT p), w)
      | Some Dir \<Rightarrow> (Inl (EISDIR p), w)
      | Some (File c _) \<Rightarrow> (Inr c, w))"

text \<open>\<^verbatim>\<open>JSON.parse(text)\<close>.\<close>

definition JSON_parse :: "content \<Rightarrow> error + json" where
  "JSON_parse c =
     (case c of JsonDoc j \<Rightarrow> Inr j | Bytes _ \<Rightarrow> Inl (SyntaxError ''JSON Parse error''))"



text \<open>\<^verbatim>\<open>Bun.spawn(args, { cwd })\<close> followed by \<^verbatim>\<open>await proc.exited\<close>.\<close>

definition spawn :: "env \<Rightarrow> string \<Rightarrow> string list \<Rightarrow> proc io" where
  "spawn e cwd args w =
     (let p = run e cwd args (files w)
      in (Inr p, w\<lparr>files := files_after p, spawned := spawned w @ [(cwd, args)]\<rparr>))"

text \<open>A \<^verbatim>\<open>$\<close> shell command: it throws when the command exits non-zero.\<close>

definition shell :: "env \<Rightarrow> string list \<Rightarrow> unit io" where
  "shell e args =
     bindIO (spawn e [] args) (\<lambda>p. if exitCode p \<noteq> 0 then throw (ShellError (exitCode p)) else ret ())"



section \<open>The acquisition script\<close>

text \<open>\<^verbatim>\<open>src/script/download-offline-deps.ts\<close>.\<close>

definition DEPS_DIR :: path where
  "DEPS_DIR = ''dist/offline-deps''"

definition RIPGREP_VERSION :: string where
  "RIPGREP_VERSION = ''14.1.1''"

text \<open>The interface \<^verbatim>\<open>Manifest\<close>. The versions of the npm packages are the property list
  of the object \<^verbatim>\<open>installNpmPackages\<close> builds.\<close>

record Components =
  ripgrep :: string
  clangd :: string
  rustAnalyzer :: string
  npmPackages :: "(string \<times> json) list"

record Manifest =
  version :: string
  created :: string
  platform :: string
  arch :: string
  components :: Components

text \<open>The JSON document of a manifest object, properties in the order of the object
  literal in \<^verbatim>\<open>createManifest\<close>.\<close>

definition Manifest_json :: "Manifest \<Rightarrow> json" where
  "Manifest_json m =
     JObj [(''version'', JStr (version m)),
           (''created'', JStr (created m)),
           (''platform'', JStr (platform m)),
           (''arch'', JStr (arch m)),
           (''components'', JObj
              [(''ripgrep'', JStr (ripgrep (components m))),
               (''clangd'', JStr (clangd (components m))),
               (''rustAnalyzer'', JStr (rustAnalyzer (components m))),
               (''npmPackages'', JObj (npmPackages (components m)))])]"

definition downloadFile :: "env \<Rightarrow> string \<Rightarrow> path \<Rightarrow> unit io" where
  "downloadFile e url' dest =
     thenIO (console_log (''Downloading '' @ url' @ ''...''))
       (let response = fetch e url' in
        if \<not> ok response
        then throw (Error (''Failed to download '' @ url' @ '': '' @ show_nat (status response)
                            @ '' '' @ statusText response))
        else
          let buffer = arrayBuffer response in
          thenIO (Bun_write dest (Bytes buffer))
            (console_log (''Downloaded to '' @ dest)))"

definition extractTarGz :: "env \<Rightarrow> path \<Rightarrow> path \<Rightarrow> nat \<Rightarrow> unit io" where
  "extractTarGz e archivePath destDir stripComponents =
     (let args = [''tar'', ''-xzf'', archivePath, ''-C'', destDir]
            @ (if stripComponents > 0
               then [''--strip-components='' @ show_nat stripComponents]
               else [])
      in bindIO (spawn e [] args) (\<lambda>proc.
           if exitCode proc \<noteq> 0
           then throw (Error (''Failed to extract '' @ archivePath))
           else ret ()))"

definition extractZip :: "env \<Rightarrow> path \<Rightarrow> path \<Rightarrow> unit io" where
  "extractZip e archivePath destDir =
     bindIO (spawn e [] [''unzip'', ''-o'', ''-q'', archivePath, ''-d'', destDir]) (\<lambda>proc.
       if exitCode proc \<noteq> 0
       then throw (Error (''Failed to extract '' @ archivePath @ '': '' @ stderr proc))
       else ret ())"

definition downloadRipgrep :: "env \<Rightarrow> string io" where
  "downloadRipgrep e =
     thenIO (console_log (newline # ''=== Downloading ripgrep ===''))
       (let platform' = ''x86_64-unknown-linux-musl'';
            filename = ''ripgrep-'' @ RIPGREP_VERSION @ ''-'' @ platform' @ ''.tar.gz'';
            url' = ''https://github.com/BurntSushi/ripgrep/releases/download/''
                     @ RIPGREP_VERSION @ ''/'' @ filename;
            ripgrepDir = path_join [DEPS_DIR, ''ripgrep'']
        in
        thenIO (fs_mkdir ripgrepDir)
          (let archivePath = path_join [DEPS_DIR, filename] in
           thenIO (downloadFile e url' archivePath)
          (thenIO (extractTarGz e archivePath ripgrepDir 1)
          (thenIO (fs_unlink archivePath)
          (thenIO (fs_chmod (path_join [ripgrepDir, ''rg'']) 493)
          (thenIO (console_log ''Ripgrep downloaded successfully'')
          (ret RIPGREP_VERSION)))))))"

definition downloadClangd :: "env \<Rightarrow> string io" where
  "downloadClangd e =
     thenIO (console_log (newline # ''=== Downloading clangd ===''))
       (let releaseResponse = fetch e ''https://api.github.com/repos/clangd/clangd/releases/latest''
        in
        if \<not> ok releaseResponse
        then throw (Error ''Failed to fetch clangd release info'')
        else
          let release = json_body releaseResponse;
              tag = tag_name release
          in
          bindIO (lift (find_clangd_asset release)) (\<lambda>asset.
            let clangdDir = path_join [DEPS_DIR, ''lsp'', ''clangd''] in
            thenIO (fs_mkdir clangdDir)
              (let archivePath = path_join [DEPS_DIR, name asset] in
               thenIO (downloadFile e (browser_download_url asset) archivePath)
              (thenIO (extractZip e archivePath (path_join [DEPS_DIR, ''lsp'']))
              (thenIO (fs_unlink archivePath)
                (let extractedDir = path_join [DEPS_DIR, ''lsp'', ''clangd_'' @ tag];
                     finalDir = path_join [DEPS_DIR, ''lsp'', ''clangd'']
                 in
                 thenIO (fs_rm finalDir)
                (thenIO (fs_rename extractedDir finalDir)
                (thenIO (fs_chmod (path_join [finalDir, ''bin'', ''clangd'']) 493)
                (thenIO (console_log (''Clangd '' @ tag @ '' downloaded successfully''))
                (ret tag))))))))))"

definition downloadRustAnalyzer :: "env \<Rightarrow> string io" where
  "downloadRustAnalyzer e =
     thenIO (console_log (newline # ''=== Downloading rust-analyzer ===''))
       (let releaseResponse =
              fetch e ''https://api.github.com/repos/rust-lang/rust-analyzer/releases/latest''
        in
        if \<not> ok releaseResponse
        then throw (Error ''Failed to fetch rust-analyzer release info'')
        else
          let release = json_body releaseResponse;
              tag = tag_name release
          in
          bindIO (lift (find_rust_analyzer_asset release)) (\<lambda>asset.
            let raDir = path_join [DEPS_DIR, ''lsp'', ''rust-analyzer'', ''bin''] in
            thenIO (fs_mkdir raDir)
              (let archivePath = path_join [DEPS_DIR, ''rust-analyzer.gz''] in
               thenIO (downloadFile e (browser_download_url asset) archivePath)
              (bindIO (spawn e [] [''gunzip'', ''-c'', archivePath]) (\<lambda>proc.
                 let binaryData = stdout proc in
                 if exitCode proc \<noteq> 0
                 then throw (Error ''Failed to extract rust-analyzer'')
                 else
                   let binaryPath = path_join [raDir, ''rust-analyzer''] in
                   thenIO (Bun_write binaryPath (Bytes binaryData))
                  (thenIO (fs_chmod binaryPath 493)
                  (thenIO (fs_unlink archivePath)
                  (thenIO (console_log (''rust-analyzer '' @ tag @ '' downloaded successfully''))
                  (ret tag)))))))))"

text \<open>\<^verbatim>\<open>pkgJson.dependencies\<close>: reading a property of \<^verbatim>\<open>null\<close> throws; of a value that
  is not an object it is \<^verbatim>\<open>undefined\<close> (\<open>None\<close>).\<close>

definition get_dependencies :: "json \<Rightarrow> error + json option" where
  "get_dependencies pkgJson =
     (case pkgJson of
        JNull \<Rightarrow> Inl (TypeError ''null is not an object'')
      | JObj kvs \<Rightarrow> Inr (map_of kvs ''dependencies'')
      | _ \<Rightarrow> Inr None)"

text \<open>The loop \<^verbatim>\<open>for (const [pkg, version] of Object.entries(pkgJson.dependencies || {}))
  versions[pkg] = version\<close>, from the empty object. An assignment to \<^verbatim>\<open>__proto__\<close>
  sets no property of the object.\<close>

definition read_versions :: "json option \<Rightarrow> (string \<times> json) list" where
  "read_versions deps =
     (let obj = (case deps of
                   None \<Rightarrow> JObj []
                 | Some d \<Rightarrow> if truthy d then d else JObj [])
      in foldl (\<lambda>versions (pkg, version').
                  if pkg = ''__proto__'' then versions else set_entry pkg version' versions)
           [] (entries_of obj))"

definition installNpmPackages :: "env \<Rightarrow> (string \<times> json) list io" where
  "installNpmPackages e =
     thenIO (console_log (newline # ''=== Installing npm packages ===''))
       (let nodeModulesDir = path_join [DEPS_DIR, ''node_modules''] in
        thenIO (fs_mkdir nodeModulesDir)
          (let packages =
                 [''pyright'',
                  ''typescript'',
                  ''typescript-language-server'',
                  ''opencode-anthropic-auth@0.0.9'',
                  ''@gitlab/opencode-gitlab-auth@1.3.0'',
                  ''@aws-sdk/credential-providers'',
                  ''@opencode-ai/plugin''];
               pkgJsonPath = path_join [DEPS_DIR, ''package.json'']
           in
           thenIO (Bun_write pkgJsonPath (JsonDoc (JObj [(''dependencies'', JObj [])])))
             (let installCmd = [''bun'', ''add'', ''--cwd'', DEPS_DIR] @ packages in
              thenIO (console_log (''Running: '' @ join_with '' '' installCmd))
             (bindIO (spawn e [] installCmd) (\<lambda>proc.
                if exitCode proc \<noteq> 0
                then throw (Error ''Failed to install npm packages'')
                else
                  bindIO (fs_readFile pkgJsonPath) (\<lambda>text.
                  bindIO (lift (JSON_parse text)) (\<lambda>pkgJson.
                  bindIO (lift (get_dependencies pkgJson)) (\<lambda>deps.
                    let versions = read_versions deps in
                    thenIO (console_log ''npm packages installed successfully'')
                      (ret versions)))))))))"

definition createManifest ::
  "env \<Rightarrow> string \<Rightarrow> string \<Rightarrow> string \<Rightarrow> (string \<times> json) list \<Rightarrow> unit io" where
  "createManifest e ripgrepVersion clangdVersion rustAnalyzerVersion npmVersions =
     thenIO (console_log (newline # ''=== Creating manifest ===''))
       (let manifest =
              \<lparr>version = ''1.0.0'',
               created = now e,
               platform = ''linux'',
               arch = ''x64'',
               components =
                 \<lparr>ripgrep = ripgrepVersion,
                  clangd = clangdVersion,
                  rustAnalyzer = rustAnalyzerVersion,
                  npmPackages = npmVersions\<rparr>\<rparr>
        in
        thenIO (Bun_write (path_join [DEPS_DIR, ''manifest.json'']) (JsonDoc (Manifest_json manifest)))
          (console_log ''Manifest created''))"

text \<open>\<^verbatim>\<open>main\<close> of the acquisition script.\<close>

definition download_main :: "env \<Rightarrow> unit io" where
  "download_main e =
     thenIO (console_log ''=== OpenCode Offline Dependencies Downloader ==='')
    (thenIO (console_log (''Target directory: '' @ DEPS_DIR))
    (thenIO (fs_rm DEPS_DIR)
    (thenIO (fs_mkdir DEPS_DIR)
    (bindIO (downloadRipgrep e) (\<lambda>ripgrepVersion.
     bindIO (downloadClangd e) (\<lambda>clangdVersion.
     bindIO (downloadRustAnalyzer e) (\<lambda>rustAnalyzerVersion.
     bindIO (installNpmPackages e) (\<lambda>npmVersions.
     thenIO (createManifest e ripgrepVersion clangdVersion rustAnalyzerVersion npmVersions)
    (thenIO (console_log (newline # ''=== Download complete ===''))
            (console_log (''Dependencies saved to: '' @ DEPS_DIR)))))))))))"



text \<open>The manifest file of the dependency root.\<close>

definition manifest_path :: path where
  "manifest_path = path_join [DEPS_DIR, ''manifest.json'']"


section \<open>JSON text\<close>

text \<open>\<^verbatim>\<open>JSON.stringify(value, null, 2)\<close>; \<open>stringify n\<close> renders a value at nesting
  depth \<open>n\<close>. It gives a file that holds a JSON document its size.\<close>

definition hex_digit :: "nat \<Rightarrow> char" where
  "hex_digit n = ''0123456789abcdef'' ! (n mod 16)"

definition escape_char :: "char \<Rightarrow> string" where
  "escape_char c =
     (if c = dquote then [backslash, dquote]
      else if c = backslash then [backslash, backslash]
      else if c = CHR 0x08 then [backslash, CHR ''b'']
      else if c = CHR 0x0C then [backslash, CHR ''f'']
      else if c = CHR 0x0A then [backslash, CHR ''n'']
      else if c = CHR 0x0D then [backslash, CHR ''r'']
      else if c = CHR 0x09 then [backslash, CHR ''t'']
      else if (of_char c :: nat) < 32
      then [backslash, CHR ''u'', CHR ''0'', CHR ''0'',
            hex_digit (of_char c div 16), hex_digit (of_char c)]
      else [c])"

definition quote :: "string \<Rightarrow> string" where
  "quote s = [dquote] @ concat (map escape_char s) @ [dquote]"

fun stringify :: "nat \<Rightarrow> json \<Rightarrow> string" where
  "stringify n JNull = ''null''"
| "stringify n (JBool b) = (if b then ''true'' else ''false'')"
| "stringify n (JNum i) = show_int i"
| "stringify n (JStr s) = quote s"
| "stringify n (JArr xs) =
     (if xs = [] then ''[]''
      else ''['' @ [newline]
        @ join_with ('','' @ [newline])
            (map (\<lambda>x. replicate (2 * Suc n) CHR '' '' @ stringify (Suc n) x) xs)
        @ [newline] @ replicate (2 * n) CHR '' '' @ '']'')"
| "stringify n (JObj kvs) =
     (if kvs = [] then ''{}''
      else ''{'' @ [newline]
        @ join_with ('','' @ [newline])
            (map (\<lambda>kv. replicate (2 * Suc n) CHR '' '' @ quote (fst kv) @ '': ''
                         @ stringify (Suc n) (snd kv)) kvs)
        @ [newline] @ replicate (2 * n) CHR '' '' @ ''}'')"

definition JSON_stringify :: "json \<Rightarrow> string" where
  "JSON_stringify j = stringify 0 j"




section \<open>The packaging script\<close>

text \<open>\<^verbatim>\<open>src/script/package-offline-bundle.ts\<close>.\<close>

definition BUNDLE_DIR :: path where
  "BUNDLE_DIR = ''dist/opencode-offline-linux-x64''"


text \<open>A text given by its lines, each ended by a newline.\<close>

definition unlines :: "string list \<Rightarrow> string" where
  "unlines ls = concat (map (\<lambda>l. l @ [newline]) ls)"


text \<open>\<^verbatim>\<open>manifest.key = value\<close> on a parsed JSON value, in a module (strict mode): it
  throws on \<^verbatim>\<open>null\<close> and on a primitive; on an array it sets a property that is no
  part of the array's JSON text.\<close>

definition set_property :: "string \<Rightarrow> json \<Rightarrow> json \<Rightarrow> error + json" where
  "set_property k v obj =
     (case obj of
        JObj kvs \<Rightarrow> Inr (JObj (set_entry k v kvs))
      | JArr xs \<Rightarrow> Inr (JArr xs)
      | _ \<Rightarrow> Inl (TypeError (''Cannot create property '' @ k)))"

text \<open>\<^verbatim>\<open>if (value) { manifest.key = value; console.log(...) }\<close> for a value of the
  process environment: nothing happens when the variable is unset or empty.\<close>

definition inject :: "string \<Rightarrow> string option \<Rightarrow> json \<Rightarrow> json io" where
  "inject k value' manifest =
     (case value' of
        None \<Rightarrow> ret manifest
      | Some v \<Rightarrow>
          if v = [] then ret manifest
          else bindIO (lift (set_property k (JStr v) manifest)) (\<lambda>manifest'.
                 thenIO (console_log (''Injecting '' @ k @ '': '' @ v))
                   (ret manifest')))"

definition createBundle :: "env \<Rightarrow> path \<Rightarrow> unit io" where
  "createBundle e buildDir =
     thenIO (console_log (newline # ''=== Creating bundle structure ===''))
    (thenIO (fs_rm BUNDLE_DIR)
    (thenIO (fs_mkdir (path_join [BUNDLE_DIR, ''bin'']))
    (thenIO (fs_mkdir (path_join [BUNDLE_DIR, ''deps'']))
    (thenIO (console_log ''Copying opencode binary...'')
      (let binaryPath = path_join [buildDir, ''bin'', ''opencode''] in
       thenIO (fs_copyFile binaryPath (path_join [BUNDLE_DIR, ''bin'', ''opencode'']))
      (thenIO (fs_chmod (path_join [BUNDLE_DIR, ''bin'', ''opencode'']) 493)
      (thenIO (console_log ''Copying dependencies...'')
      (thenIO (shell e [''cp'', ''-r'', DEPS_DIR @ ''/*'', path_join [BUNDLE_DIR, ''deps''] @ ''/''])
      (thenIO (console_log ''Copying OpenTUI native library...'')
        (let opentuiSoPath = ''node_modules/.bun/@opentui+core-linux-x64@0.1.74/node_modules/@opentui/core-linux-x64/libopentui.so''
         in
         thenIO (fs_mkdir (path_join [BUNDLE_DIR, ''deps'', ''opentui'']))
        (thenIO (fs_copyFile opentuiSoPath
                   (path_join [BUNDLE_DIR, ''deps'', ''opentui'', ''libopentui.so'']))
        (bindIO (fs_readFile (path_join [DEPS_DIR, ''manifest.json''])) (\<lambda>manifestContent.
         bindIO (lift (JSON_parse manifestContent)) (\<lambda>manifest.
           let bundleVersion = process_env e ''BUNDLE_VERSION'';
               commitSha = process_env e ''BUNDLE_COMMIT_SHA''
           in
           bindIO (inject ''bundleVersion'' bundleVersion manifest) (\<lambda>manifest.
           bindIO (inject ''commitSha'' commitSha manifest) (\<lambda>manifest.
           thenIO (Bun_write (path_join [BUNDLE_DIR, ''manifest.json'']) (JsonDoc manifest))
             (console_log ''Bundle structure created'')))))))))))))))))"

definition wrapperScript :: string where
  \<open>wrapperScript = unlines
     [''#!/bin/bash'',
      ''# OpenCode Offline Wrapper Script'',
      ''# Sets up environment variables for offline mode and runs opencode'',
      '''',
      ''SCRIPT_DIR="$(cd "$(dirname "${BASH_SOURCE[0]}")" && pwd)"'',
      '''',
      ''export OPENCODE_OFFLINE_MODE=true'',
      ''export OPENCODE_OFFLINE_DEPS_PATH="$SCRIPT_DIR/deps"'',
      ''export OPENCODE_DISABLE_AUTOUPDATE=true'',
      ''export OPENCODE_DISABLE_LSP_DOWNLOAD=true'',
      ''export OPENCODE_DISABLE_MODELS_FETCH=true'',
      '''',
      ''exec "$SCRIPT_DIR/bin/opencode" "$@"'']\<close>

definition createWrapperScript :: "unit io" where
  "createWrapperScript =
     thenIO (console_log (newline # ''=== Creating wrapper script ===''))
    (thenIO (Bun_write (path_join [BUNDLE_DIR, ''opencode-offline'']) (Bytes wrapperScript))
    (thenIO (fs_chmod (path_join [BUNDLE_DIR, ''opencode-offline'']) 493)
            (console_log ''Wrapper script created'')))"





text \<open>The manifest file at the root of the bundle, and the launcher.\<close>

definition bundle_manifest_path :: path where
  "bundle_manifest_path = path_join [BUNDLE_DIR, ''manifest.json'']"

definition launcher_path :: path where
  "launcher_path = path_join [BUNDLE_DIR, ''opencode-offline'']"


section \<open>Notions for the properties of the scripts\<close>

text \<open>The manifest is not (yet) a file of the dependency root.\<close>

definition no_manifest :: "world \<Rightarrow> bool" where
  "no_manifest w \<longleftrightarrow> \<not> is_file (files w) manifest_path"




text \<open>
  \<open>keeps P m\<close>: whatever \<open>m\<close> does, returning or throwing, it leaves \<open>P\<close> true if
  \<open>P\<close> was true before. \<open>ensures m Q\<close>: when \<open>m\<close> returns, \<open>Q\<close> holds of the
  result and the world.
\<close>

definition keeps :: "(world \<Rightarrow> bool) \<Rightarrow> 'a io \<Rightarrow> bool" where
  "keeps P m \<longleftrightarrow> (\<forall>w. P w \<longrightarrow> P (snd (m w)))"

definition ensures :: "'a io \<Rightarrow> ('a \<Rightarrow> world \<Rightarrow> bool) \<Rightarrow> bool" where
  "ensures m Q \<longleftrightarrow> (\<forall>w x w'. m w = (Inr x, w') \<longrightarrow> Q x w')"

text \<open>The first steps of \<^verbatim>\<open>main\<close> of the acquisition script: the banner is printed,
  the dependency root removed and created anew. \<open>prepared w\<close> is the world they leave,
  in which the first acquisition starts when they have not failed.\<close>

definition prepare :: "unit io" where
  "prepare = thenIO (console_log ''=== OpenCode Offline Dependencies Downloader ==='')
     (thenIO (console_log (''Target directory: '' @ DEPS_DIR))
     (thenIO (fs_rm DEPS_DIR) (fs_mkdir DEPS_DIR)))"

definition prepared :: "world \<Rightarrow> world" where
  "prepared w = snd (thenIO (console_log ''=== OpenCode Offline Dependencies Downloader ==='')
     (thenIO (console_log (''Target directory: '' @ DEPS_DIR))
     (thenIO (fs_rm DEPS_DIR) (fs_mkdir DEPS_DIR))) w)"

text \<open>The manifest object \<^verbatim>\<open>createManifest\<close> builds from the results of the four
  acquisitions.\<close>

definition acquired_manifest :: "env \<Rightarrow> string \<Rightarrow> string \<Rightarrow> string \<Rightarrow> (string \<times> json) list \<Rightarrow> Manifest" where
  "acquired_manifest e rg cl ra npm =
     \<lparr>version = ''1.0.0'', created = now e, platform = ''linux'', arch = ''x64'',
      components = \<lparr>ripgrep = rg, clangd = cl, rustAnalyzer = ra, npmPackages = npm\<rparr>\<rparr>"

text \<open>An assumption on the copy of the dependency root into the bundle
  (\<^verbatim>\<open>cp -r dist/offline-deps/* <bundle>/deps/\<close>): it leaves the manifest of the
  dependency root as it is.\<close>

definition copy_leaves_manifest :: "env \<Rightarrow> bool" where
  "copy_leaves_manifest e \<longleftrightarrow>
     (\<forall>f. files_after (run e [] [''cp'', ''-r'', ''dist/offline-deps/*'',
                                  ''dist/opencode-offline-linux-x64/deps/''] f) manifest_path
          = f manifest_path)"

text \<open>\<open>holds p n\<close>: the path \<open>p\<close> has the entry \<open>n\<close>. \<open>triple P m Q\<close>: when
  \<open>m\<close> starts in a world where \<open>P\<close> holds and returns, \<open>Q\<close> holds of the result and
  the world.\<close>

definition holds :: "path \<Rightarrow> node \<Rightarrow> world \<Rightarrow> bool" where
  "holds p n w \<longleftrightarrow> files w p = Some n"

definition triple :: "(world \<Rightarrow> bool) \<Rightarrow> 'a io \<Rightarrow> ('a \<Rightarrow> world \<Rightarrow> bool) \<Rightarrow> bool" where
  "triple P m Q \<longleftrightarrow> (\<forall>w x w'. P w \<longrightarrow> m w = (Inr x, w') \<longrightarrow> Q x w')"


text \<open>The properties the assembler adds to the manifest for a value of the process
  environment: none when the variable is unset or empty.\<close>

definition injected :: "string \<Rightarrow> string option \<Rightarrow> (string \<times> json) list" where
  "injected k v = (case v of None \<Rightarrow> [] | Some s \<Rightarrow> if s = [] then [] else [(k, JStr s)])"


section \<open>Concrete environments and worlds\<close>

text \<open>Inputs at which the theorems below are evaluated: an empty world; an outside in
  which every request is answered 404 and every subprocess exits with code 2, leaving the
  files as they are; and an outside, with the clock at \<open>t\<close>, in which every request succeeds, the release
  endpoints list a matching asset, and each subprocess exits with code 0 having put in
  place what the script expects of it (\<^verbatim>\<open>tar\<close> the ripgrep binary, \<^verbatim>\<open>unzip\<close> the
  directory \<^verbatim>\<open>clangd_18.1.3\<close>, \<^verbatim>\<open>bun add\<close> a \<^verbatim>\<open>package.json\<close> with one dependency).\<close>

definition world0 :: world where
  "world0 = \<lparr>files = (\<lambda>_. None), out_log = [], err_log = [], spawned = []\<rparr>"


definition env_failing :: env where
  "env_failing =
     \<lparr>fetch = (\<lambda>_. \<lparr>ok = False, status = 404, statusText = ''Not Found'', arrayBuffer = [],
                      json_body = \<lparr>tag_name = [], assets = []\<rparr>\<rparr>),
      run = (\<lambda>cwd args f. \<lparr>exitCode = 2, stdout = [],
                             stderr = ''tar: Unexpected EOF in archive'', files_after = f\<rparr>),
      now = ''2024-05-01T00:00:00.000Z'',
      process_env = (\<lambda>_. None),
      listing = (\<lambda>_. [])\<rparr>"

definition env_ok :: "string \<Rightarrow> env" where
  "env_ok t =
     \<lparr>fetch = (\<lambda>u.
        \<lparr>ok = True, status = 200, statusText = ''OK'', arrayBuffer = ''archive'',
         json_body =
           (if u = ''https://api.github.com/repos/clangd/clangd/releases/latest''
            then \<lparr>tag_name = ''18.1.3'', assets =
                   [\<lparr>name = ''clangd-mac-18.1.3.zip'', browser_download_url = ''http://h/mac.zip''\<rparr>,
                    \<lparr>name = ''clangd-linux-18.1.3.zip'', browser_download_url = ''http://h/linux.zip''\<rparr>]\<rparr>
            else \<lparr>tag_name = ''2024-05-06'', assets =
                   [\<lparr>name = ''rust-analyzer-x86_64-unknown-linux-gnu.gz'',
                     browser_download_url = ''http://h/ra.gz''\<rparr>]\<rparr>)\<rparr>),
      run = (\<lambda>cwd args f.
        \<lparr>exitCode = 0, stdout = ''ELF'', stderr = [],
         files_after =
           (if take 1 args = [''tar''] \<and> cwd = []
            then f(''dist/offline-deps/ripgrep/rg'' \<mapsto> File (Bytes ''rg'') 420)
            else if take 1 args = [''unzip'']
            then f(''dist/offline-deps/lsp/clangd_18.1.3'' \<mapsto> Dir,
                   ''dist/offline-deps/lsp/clangd_18.1.3/bin/clangd'' \<mapsto> File (Bytes ''clangd'') 420)
            else if take 2 args = [''bun'', ''add'']
            then f(''dist/offline-deps/package.json'' \<mapsto>
                     File (JsonDoc (JObj [(''dependencies'', JObj [(''pyright'', JStr ''1.1.400'')])])) 420)
            else f)\<rparr>),
      now = t,
      process_env = (\<lambda>k. if k = ''BUNDLE_VERSION'' then Some ''v1.2.3'' else None),
      listing = (\<lambda>_. [''opencode-linux-x64''])\<rparr>"

text \<open>A world in which nothing stands in the way of the acquisition script when the
  outside is \<open>env_ok t\<close>: no file lies where the script needs a directory, and no
  directory where it writes a file.\<close>

definition deps_dirs :: "path list" where
  "deps_dirs =
     [''dist'', ''dist/offline-deps'', ''dist/offline-deps/ripgrep'', ''dist/offline-deps/lsp'',
      ''dist/offline-deps/lsp/clangd'', ''dist/offline-deps/lsp/rust-analyzer'',
      ''dist/offline-deps/lsp/rust-analyzer/bin'', ''dist/offline-deps/node_modules'']"

definition deps_files :: "path list" where
  "deps_files =
     [''dist/offline-deps/ripgrep-14.1.1-x86_64-unknown-linux-musl.tar.gz'',
      ''dist/offline-deps/clangd-linux-18.1.3.zip'',
      ''dist/offline-deps/rust-analyzer.gz'',
      ''dist/offline-deps/lsp/rust-analyzer/bin/rust-analyzer'',
      ''dist/offline-deps/package.json'',
      ''dist/offline-deps/manifest.json'']"

definition unobstructed :: "world \<Rightarrow> bool" where
  "unobstructed w \<longleftrightarrow>
     list_all (\<lambda>p. \<not> is_file (files w) p) deps_dirs
     \<and> list_all (\<lambda>p. files w p \<noteq> Some Dir) deps_files"

text \<open>A world ready for the bundle assembler: a built host binary, the native library,
  and a dependency root with the manifest the generator writes. And an outside in which
  \<^verbatim>\<open>BUNDLE_VERSION\<close> is set to the empty string.\<close>

definition world_built :: world where
  "world_built =
     \<lparr>files = (\<lambda>_. None)
        (''build/bin/opencode'' \<mapsto> File (Bytes ''opencode'') 493,
         ''node_modules/.bun/@opentui+core-linux-x64@0.1.74/node_modules/@opentui/core-linux-x64/libopentui.so''
            \<mapsto> File (Bytes ''so'') 420,
         ''dist/offline-deps'' \<mapsto> Dir,
         ''dist/offline-deps/manifest.json'' \<mapsto>
            File (JsonDoc (Manifest_json (acquired_manifest (env_ok ''2024-05-01T00:00:00.000Z'')
               ''14.1.1'' ''18.1.3'' ''2024-05-06'' [(''pyright'', JStr ''1.1.400'')]))) 420),
      out_log = [], err_log = [], spawned = []\<rparr>"

definition env_empty_version :: env where
  "env_empty_version =
     (env_ok ''2024-05-01T00:00:00.000Z'')
       \<lparr>process_env := (\<lambda>k. if k = ''BUNDLE_VERSION'' then Some [] else None)\<rparr>"


section \<open>Properties: path normalisation\<close>

lemma split_on_nonempty [simp]: "split_on c s \<noteq> []"
  by (induction s) (auto split: list.splits)

lemma split_on_append: "split_on c (a @ c # b) = split_on c a @ split_on c b"
  by (induction a) (auto split: list.splits)

lemma split_on_no_sep: "c \<notin> set s \<Longrightarrow> split_on c s = [s]"
  by (induction s) auto

lemma split_on_segs_no_sep: "seg \<in> set (split_on c s) \<Longrightarrow> c \<notin> set seg"
  by (induction s arbitrary: seg) (auto split: if_splits list.splits)

lemma split_on_join:
  "parts \<noteq> [] \<Longrightarrow> split_on c (join_with [c] parts) = concat (map (split_on c) parts)"
proof (induction parts)
  case Nil
  then show ?case by simp
next
  case (Cons x parts)
  show ?case
  proof (cases parts)
    case Nil
    then show ?thesis by simp
  next
    case (Cons y ys)
    with Cons.IH have "split_on c (join_with [c] (y # ys)) = concat (map (split_on c) (y # ys))"
      by simp
    then show ?thesis
      using Cons by (simp add: split_on_append)
  qed
qed

lemma normalize_step_skip [simp]:
  "normalize_step allow res [] = res" "normalize_step allow res ''.'' = res"
  by (simp_all add: normalize_step_def)

lemma normalize_step_plain: "plain_seg s \<Longrightarrow> normalize_step allow res s = res @ [s]"
  by (simp add: normalize_step_def plain_seg_def)

lemma foldl_step_plain:
  "list_all plain_seg T \<Longrightarrow> foldl (normalize_step allow) acc T = acc @ T"
  by (induction T arbitrary: acc) (simp_all add: normalize_step_plain)

lemma foldl_step_dotdots:
  "foldl (normalize_step True) (replicate m ''..'') (replicate n ''..'') = replicate (m + n) ''..''"
proof (induction n arbitrary: m)
  case 0
  then show ?case by simp
next
  case (Suc n)
  have "normalize_step True (replicate m ''..'') ''..'' = replicate (Suc m) ''..''"
    by (cases m) (simp_all add: normalize_step_def replicate_append_same)
  then show ?case using Suc [of "Suc m"] by simp
qed

lemma canonical_fixed:
  assumes "canonical allow S"
  shows "foldl (normalize_step allow) [] S = S"
proof -
  from assms obtain n T where S: "S = replicate n ''..'' @ T" and T: "list_all plain_seg T"
    and n: "allow \<or> n = 0"
    by (auto simp: canonical_def)
  have "foldl (normalize_step allow) [] (replicate n ''..'') = replicate n ''..''"
  proof (cases "n = 0")
    case True
    then show ?thesis by simp
  next
    case False
    with n have allow by simp
    with foldl_step_dotdots [of 0 n] show ?thesis by simp
  qed
  then show ?thesis
    by (simp add: S foldl_step_plain [OF T])
qed

lemma canonical_step:
  assumes "canonical allow S" and "CHR ''/'' \<notin> set seg"
  shows "canonical allow (normalize_step allow S seg)"
proof -
  from assms(1) obtain n T where S: "S = replicate n ''..'' @ T" and T: "list_all plain_seg T"
    and n: "allow \<or> n = 0"
    by (auto simp: canonical_def)
  consider (skip) "seg = [] \<or> seg = ''.''" | (up) "seg = ''..''" | (plain) "plain_seg seg"
    using assms(2) by (auto simp: plain_seg_def)
  then show ?thesis
  proof cases
    case skip
    then show ?thesis using assms(1) by auto
  next
    case plain
    then have "normalize_step allow S seg = replicate n ''..'' @ (T @ [seg])"
      by (simp add: normalize_step_plain S)
    moreover have "list_all plain_seg (T @ [seg])" using T plain by simp
    ultimately show ?thesis using n unfolding canonical_def by blast
  next
    case up
    show ?thesis
    proof (cases "T = []")
      case True
      then have S': "S = replicate n ''..''" using S by simp
      then have "S = [] \<or> last S = ''..''" by (cases n) auto
      then have "normalize_step allow S seg = (if allow then replicate (Suc n) ''..'' else S)"
        using up S' by (auto simp: normalize_step_def replicate_append_same)
      then show ?thesis
        using assms(1) unfolding canonical_def
        by (cases allow) (auto intro: exI [of _ "Suc n"] exI [of _ "[]"])
    next
      case False
      then have "last S = last T" "S \<noteq> []" using S by auto
      moreover have "plain_seg (last T)" using T False by (simp add: list_all_iff)
      ultimately have "normalize_step allow S seg = butlast S"
        using up by (auto simp: normalize_step_def plain_seg_def)
      also have "\<dots> = replicate n ''..'' @ butlast T"
        using False S by (simp add: butlast_append)
      finally have "normalize_step allow S seg = replicate n ''..'' @ butlast T" .
      moreover have "list_all plain_seg (butlast T)"
        using T by (auto simp: list_all_iff dest: in_set_butlastD)
      ultimately show ?thesis using n unfolding canonical_def by blast
    qed
  qed
qed

lemma canonical_foldl:
  "canonical allow acc \<Longrightarrow> \<forall>seg \<in> set segs. CHR ''/'' \<notin> set seg \<Longrightarrow>
     canonical allow (foldl (normalize_step allow) acc segs)"
  by (induction segs arbitrary: acc) (simp_all add: canonical_step)

lemma canonical_normalizeString: "canonical allow (normalizeString path allow)"
  unfolding normalizeString_def
  by (rule canonical_foldl) (auto simp: canonical_def dest: split_on_segs_no_sep intro: exI [of _ 0])


lemma canonical_segs:
  "canonical allow S \<Longrightarrow> s \<in> set S \<Longrightarrow> s \<noteq> [] \<and> CHR ''/'' \<notin> set s"
proof -
  assume "canonical allow S" and s: "s \<in> set S"
  then obtain n T where S: "S = replicate n ''..'' @ T" and T: "list_all plain_seg T"
    unfolding canonical_def by blast
  from s S have "s = ''..'' \<or> s \<in> set T" by auto
  then show ?thesis
  proof
    assume "s = ''..''"
    then show ?thesis by simp
  next
    assume "s \<in> set T"
    with T have "plain_seg s" by (simp add: list_all_iff)
    then show ?thesis by (simp add: plain_seg_def)
  qed
qed

lemma join_with_hd:
  "S \<noteq> [] \<Longrightarrow> hd S \<noteq> [] \<Longrightarrow> join_with sep S \<noteq> [] \<and> hd (join_with sep S) = hd (hd S)"
  by (induction sep S rule: join_with.induct) auto

lemma concat_split_on_segs:
  "\<forall>s \<in> set S. c \<notin> set s \<Longrightarrow> concat (map (split_on c) S) = S"
  by (induction S) (simp_all add: split_on_no_sep)

lemma split_on_join_segs:
  "S \<noteq> [] \<Longrightarrow> \<forall>s \<in> set S. c \<notin> set s \<Longrightarrow> split_on c (join_with [c] S) = S"
  by (simp add: split_on_join concat_split_on_segs)

lemma normalizeString_rendered:
  assumes "canonical allow S" and "S \<noteq> []"
    and pp: "pre = [] \<or> pre = ''/''" "post = [] \<or> post = ''/''"
  shows "normalizeString (pre @ join_with ''/'' S @ post) allow = S"
proof -
  let ?p = "join_with ''/'' S"
  have seg: "\<forall>s \<in> set S. CHR ''/'' \<notin> set s"
    using assms(1) canonical_segs by blast
  have sp: "split_on CHR ''/'' ?p = S"
    using split_on_join_segs [OF assms(2) seg] by simp
  have fx: "foldl (normalize_step allow) [] S = S"
    by (rule canonical_fixed [OF assms(1)])
  have a: "split_on CHR ''/'' (CHR ''/'' # ?p) = [] # S"
    using split_on_append [of "CHR ''/''" "[]" ?p] sp by simp
  have b: "split_on CHR ''/'' (?p @ ''/'') = S @ [[]]"
    using split_on_append [of "CHR ''/''" ?p "[]"] sp by simp
  have c: "split_on CHR ''/'' (CHR ''/'' # ?p @ ''/'') = [] # S @ [[]]"
    using split_on_append [of "CHR ''/''" "[]" "?p @ ''/''"] b by simp
  from pp show ?thesis
    by (auto simp: normalizeString_def sp a b c fx)
qed

lemma normalize_segments:
  assumes "path \<noteq> []"
  shows "isAbsolute (normalize path) = isAbsolute path"
    and "path_segments (normalize path) = path_segments path"
proof -
  let ?abs = "isAbsolute path"
  let ?S = "normalizeString path (\<not> ?abs)"
  have can: "canonical (\<not> ?abs) ?S" by (rule canonical_normalizeString)
  show abs: "isAbsolute (normalize path) = isAbsolute path"
  proof (cases "?S = []")
    case True
    then show ?thesis using assms by (simp add: normalize_def Let_def isAbsolute_def)
  next
    case False
    then have hd: "hd ?S \<in> set ?S" by simp
    with canonical_segs [OF can hd] have h: "hd ?S \<noteq> []" "CHR ''/'' \<notin> set (hd ?S)" by auto
    from join_with_hd [OF False h(1), of "''/''"]
    have j: "join_with ''/'' ?S \<noteq> []" "hd (join_with ''/'' ?S) = hd (hd ?S)" by auto
    from h have "hd (hd ?S) \<noteq> CHR ''/''" by (cases "hd ?S") auto
    with j have rel: "\<not> isAbsolute (join_with ''/'' ?S @ post)" for post
      by (cases "join_with ''/'' ?S") (auto simp: isAbsolute_def)
    have nz: "normalize path = (if ?abs then ''/'' else []) @ join_with ''/'' ?S
        @ (if last path = CHR ''/'' then ''/'' else [])"
      using assms j by (simp add: normalize_def Let_def)
    show ?thesis
    proof (cases ?abs)
      case True
      then show ?thesis by (simp add: nz) (simp add: isAbsolute_def)
    next
      case False
      then show ?thesis using rel by (simp add: nz)
    qed
  qed
  show "path_segments (normalize path) = path_segments path"
  proof (cases "?S = []")
    case True
    have "normalizeString ''/'' a = []" "normalizeString ''./'' a = []" "normalizeString ''.'' a = []" for a
      by (simp_all add: normalizeString_def)
    then show ?thesis
      using True assms unfolding path_segments_def abs
      by (auto simp: normalize_def Let_def)
  next
    case False
    then have hd: "hd ?S \<in> set ?S" by simp
    with canonical_segs [OF can hd] have h: "hd ?S \<noteq> []" by auto
    from join_with_hd [OF False h, of "''/''"] have j: "join_with ''/'' ?S \<noteq> []" by auto
    have "normalize path = (if ?abs then ''/'' else []) @ join_with ''/'' ?S
        @ (if last path = CHR ''/'' then ''/'' else [])"
      using assms j by (simp add: normalize_def Let_def)
    then show ?thesis
      unfolding path_segments_def abs
      using normalizeString_rendered [OF can False] by auto
  qed
qed

lemma normalize_step_no_up: "seg \<noteq> ''..'' \<Longrightarrow> prefix res (normalize_step allow res seg)"
  by (simp add: normalize_step_def)

lemma foldl_step_no_up:
  "''..'' \<notin> set segs \<Longrightarrow> prefix res (foldl (normalize_step allow) res segs)"
proof (induction segs arbitrary: res)
  case Nil
  then show ?case by simp
next
  case (Cons s segs)
  then have "s \<noteq> ''..''" by auto
  then have "prefix res (normalize_step allow res s)"
    by (rule normalize_step_no_up)
  moreover from Cons have "prefix (normalize_step allow res s)
      (foldl (normalize_step allow) (normalize_step allow res s) segs)"
    by simp
  ultimately show ?case by (auto intro: prefix_order.trans)
qed

lemma path_join_lies_under:
  assumes d: "d \<noteq> []" and rest: "\<forall>a \<in> set rest. no_parent_segment a"
  shows "lies_under d (path_join (d # rest))"
proof -
  let ?rest = "filter (\<lambda>arg. arg \<noteq> []) rest"
  let ?joined = "join_with ''/'' (d # ?rest)"
  have pj: "path_join (d # rest) = normalize ?joined"
    using d by (simp add: path_join_def)
  have jd: "?joined \<noteq> [] \<and> hd ?joined = hd d"
    using join_with_hd [of "d # ?rest" "''/''"] d by simp
  then have abs: "isAbsolute ?joined = isAbsolute d"
    using d by (cases d; cases ?joined) (auto simp: isAbsolute_def)
  have sp: "split_on CHR ''/'' ?joined
      = split_on CHR ''/'' d @ concat (map (split_on CHR ''/'') ?rest)"
    using split_on_join [of "d # ?rest" "CHR ''/''"] by simp
  have "''..'' \<notin> set (concat (map (split_on CHR ''/'') ?rest))"
    using rest by (auto simp: no_parent_segment_def)
  then have "prefix (path_segments d) (path_segments ?joined)"
    unfolding path_segments_def normalizeString_def abs sp
    by (simp add: foldl_step_no_up)
  with normalize_segments [OF conjunct1 [OF jd]] abs pj show ?thesis
    by (simp add: lies_under_def)
qed



section \<open>Properties: curl rendering\<close>

lemma toCurl_headers_no_auth:
  "same_but_auth_values hs hs' \<Longrightarrow> toCurl_headers False hs = toCurl_headers False hs'"
  unfolding same_but_auth_values_def
proof (induction hs hs' rule: list_all2_induct)
  case Nil
  show ?case by simp
next
  case (Cons h hs h' hs')
  obtain k v where h: "h = (k, v)" by (cases h)
  obtain k' v' where h': "h' = (k', v')" by (cases h')
  from Cons.hyps(1) h h' have k: "k' = k" and v: "is_auth_header k \<or> v' = v"
    by auto
  show ?case
    using v Cons.IH by (auto simp: h h' k is_auth_header_def)
qed

lemma toCurl_headers_drop_content_length:
  "toCurl_headers incl (filter (\<lambda>h. \<not> is_content_length (fst h)) hs) = toCurl_headers incl hs"
  by (induction hs) (auto simp: is_content_length_def)

lemma toCurl_headers_rendered:
  "p \<in> set (toCurl_headers incl hs) \<Longrightarrow>
     \<exists>k v. (k, v) \<in> set hs \<and> \<not> is_content_length k \<and> (incl \<or> \<not> is_auth_header k)
       \<and> p = header_part k v"
proof (induction hs)
  case Nil
  then show ?case by simp
next
  case (Cons h hs)
  obtain k v where h: "h = (k, v)" by (cases h)
  show ?case
  proof (cases "p \<in> set (toCurl_headers incl hs)")
    case True
    from Cons.IH [OF this] show ?thesis by auto
  next
    case False
    with Cons.prems h
    have "\<not> is_content_length k \<and> (incl \<or> \<not> is_auth_header k) \<and> p = header_part k v"
      by (auto simp: is_content_length_def is_auth_header_def split: if_splits)
    then show ?thesis using h by auto
  qed
qed

text \<open>
  C10. With \<^verbatim>\<open>includeAuth: false\<close> the rendered command does not depend on the values
  of the headers named authorization or x-api-key (in any letter case): two requests
  whose headers differ only in those values render to the same string. For every
  option setting the rendering is that of the request without its content-length
  headers, and every header part pushed comes from a header other than content-length.
\<close>

theorem toCurl_noninterference:
  "(same_but_auth_values (headers r) hs' \<longrightarrow>
      toCurl r \<lparr>includeAuth = Some False\<rparr> = toCurl (r\<lparr>headers := hs'\<rparr>) \<lparr>includeAuth = Some False\<rparr>)
   \<and> toCurl (r\<lparr>headers := filter (\<lambda>h. \<not> is_content_length (fst h)) (headers r)\<rparr>) opts
       = toCurl r opts
   \<and> (\<forall>incl. \<forall>p \<in> set (toCurl_headers incl (headers r)).
         \<exists>k v. (k, v) \<in> set (headers r) \<and> \<not> is_content_length k
           \<and> p = header_part k v)"
proof (intro conjI impI allI ballI)
  assume "same_but_auth_values (headers r) hs'"
  then show "toCurl r \<lparr>includeAuth = Some False\<rparr>
      = toCurl (r\<lparr>headers := hs'\<rparr>) \<lparr>includeAuth = Some False\<rparr>"
    by (simp add: toCurl_def toCurl_headers_no_auth)
next
  show "toCurl (r\<lparr>headers := filter (\<lambda>h. \<not> is_content_length (fst h)) (headers r)\<rparr>) opts
      = toCurl r opts"
    by (simp add: toCurl_def toCurl_headers_drop_content_length)
next
  fix incl p
  assume "p \<in> set (toCurl_headers incl (headers r))"
  from toCurl_headers_rendered [OF this]
  show "\<exists>k v. (k, v) \<in> set (headers r) \<and> \<not> is_content_length k \<and> p = header_part k v"
    by blast
qed

theorem toCurl_noninterference_witness:
  "same_but_auth_values [(''Authorization'', ''A''), (''Content-Length'', ''2''), (''Accept'', ''a/b'')]
      [(''Authorization'', ''B''), (''Content-Length'', ''2''), (''Accept'', ''a/b'')]
   \<and> toCurl \<lparr>sessionID = ''s1'', timestamp = 0, url = ''http://h/v1'', http_method = ''POST'',
         headers = [(''Authorization'', ''A''), (''Content-Length'', ''2''), (''Accept'', ''a/b'')],
         body = ''{}''\<rparr> \<lparr>includeAuth = Some False\<rparr>
     = toCurl \<lparr>sessionID = ''s1'', timestamp = 0, url = ''http://h/v1'', http_method = ''POST'',
         headers = [(''Authorization'', ''B''), (''Content-Length'', ''2''), (''Accept'', ''a/b'')],
         body = ''{}''\<rparr> \<lparr>includeAuth = Some False\<rparr>
   \<and> toCurl_headers True [(''Authorization'', ''A''), (''Content-Length'', ''2''), (''Accept'', ''a/b'')]
     = [header_part ''Authorization'' ''A'', header_part ''Accept'' ''a/b'']"
proof -
  have same: "same_but_auth_values
      [(''Authorization'', ''A''), (''Content-Length'', ''2''), (''Accept'', ''a/b'')]
      [(''Authorization'', ''B''), (''Content-Length'', ''2''), (''Accept'', ''a/b'')]"
    by code_simp
  have hdrs: "toCurl_headers True
      [(''Authorization'', ''A''), (''Content-Length'', ''2''), (''Accept'', ''a/b'')]
     = [header_part ''Authorization'' ''A'', header_part ''Accept'' ''a/b'']"
    by code_simp
  from same hdrs toCurl_noninterference [of
      "\<lparr>sessionID = ''s1'', timestamp = 0, url = ''http://h/v1'', http_method = ''POST'',
         headers = [(''Authorization'', ''A''), (''Content-Length'', ''2''), (''Accept'', ''a/b'')],
         body = ''{}''\<rparr>"
      "[(''Authorization'', ''B''), (''Content-Length'', ''2''), (''Accept'', ''a/b'')]"]
  show ?thesis by simp
qed


section \<open>Properties: asset selection\<close>

lemma find_filter_conv:
  "find P xs = (case filter P xs of [] \<Rightarrow> None | x # _ \<Rightarrow> Some x)"
  by (induction xs) auto

lemma filter_first_match:
  "filter P xs = a # rest \<longleftrightarrow>
     (\<exists>pre post. xs = pre @ a # post \<and> (\<forall>b \<in> set pre. \<not> P b) \<and> P a \<and> rest = filter P post)"
  by (auto simp: filter_eq_Cons_iff)

text \<open>
  C2, as the code has it. Selecting the clangd asset returns the first asset, in listed
  order, whose name contains "linux", contains the release tag and ends with ".zip"
  (so the one such asset when exactly one exists), and fails with the error "Could not
  find clangd Linux asset" exactly when no asset satisfies the three conditions; several
  matches are not an error. The rust-analyzer asset is selected by equality of its name
  with the fixed file name, first match first, failing exactly when no asset has that name.
\<close>

theorem asset_selection_first_match:
  "find_clangd_asset rel =
     (case filter (clangd_asset_pred (tag_name rel)) (assets rel) of
        [] \<Rightarrow> Inl (Error ''Could not find clangd Linux asset'')
      | a # _ \<Rightarrow> Inr a)
   \<and> (clangd_asset_pred tag a \<longleftrightarrow>
        sublist ''linux'' (name a) \<and> sublist tag (name a) \<and> suffix ''.zip'' (name a))
   \<and> (find_clangd_asset rel = Inr a \<longleftrightarrow>
        (\<exists>pre post. assets rel = pre @ a # post \<and> clangd_asset_pred (tag_name rel) a
           \<and> (\<forall>b \<in> set pre. \<not> clangd_asset_pred (tag_name rel) b)))
   \<and> ((\<exists>e. find_clangd_asset rel = Inl e) \<longleftrightarrow>
        (\<forall>b \<in> set (assets rel). \<not> clangd_asset_pred (tag_name rel) b))
   \<and> find_rust_analyzer_asset rel =
     (case filter rust_analyzer_asset_pred (assets rel) of
        [] \<Rightarrow> Inl (Error ''Could not find rust-analyzer Linux asset'')
      | a # _ \<Rightarrow> Inr a)
   \<and> (rust_analyzer_asset_pred a \<longleftrightarrow> name a = ''rust-analyzer-x86_64-unknown-linux-gnu.gz'')"
proof (intro conjI)
  let ?P = "clangd_asset_pred (tag_name rel)"
  show c: "find_clangd_asset rel =
     (case filter ?P (assets rel) of
        [] \<Rightarrow> Inl (Error ''Could not find clangd Linux asset'') | a # _ \<Rightarrow> Inr a)"
    by (simp add: find_clangd_asset_def find_filter_conv [of ?P] split: list.splits)
  show "clangd_asset_pred tag a \<longleftrightarrow>
      sublist ''linux'' (name a) \<and> sublist tag (name a) \<and> suffix ''.zip'' (name a)"
    by (simp add: clangd_asset_pred_def str_includes_def endsWith_def)
  have "find_clangd_asset rel = Inr a \<longleftrightarrow> (\<exists>rest. filter ?P (assets rel) = a # rest)"
    by (simp add: c split: list.splits)
  also have "\<dots> \<longleftrightarrow> (\<exists>pre post. assets rel = pre @ a # post \<and> ?P a \<and> (\<forall>b \<in> set pre. \<not> ?P b))"
    by (auto simp: filter_first_match)
  finally show "find_clangd_asset rel = Inr a \<longleftrightarrow>
      (\<exists>pre post. assets rel = pre @ a # post \<and> ?P a \<and> (\<forall>b \<in> set pre. \<not> ?P b))" .
  have "(\<exists>e. find_clangd_asset rel = Inl e) \<longleftrightarrow> filter ?P (assets rel) = []"
    by (simp add: c split: list.splits)
  then show "(\<exists>e. find_clangd_asset rel = Inl e) \<longleftrightarrow> (\<forall>b \<in> set (assets rel). \<not> ?P b)"
    by (simp add: filter_empty_conv)
  show "find_rust_analyzer_asset rel =
     (case filter rust_analyzer_asset_pred (assets rel) of
        [] \<Rightarrow> Inl (Error ''Could not find rust-analyzer Linux asset'') | a # _ \<Rightarrow> Inr a)"
    by (simp add: find_rust_analyzer_asset_def find_filter_conv [of rust_analyzer_asset_pred]
          split: list.splits)
  show "rust_analyzer_asset_pred a \<longleftrightarrow> name a = ''rust-analyzer-x86_64-unknown-linux-gnu.gz''"
    by (simp add: rust_analyzer_asset_pred_def)
qed

text \<open>The claim's "fails when more than one plausible match exists" does not hold: with two
  matching assets listed, the first is returned.\<close>

theorem asset_selection_two_matches_counterexample:
  "length (filter (clangd_asset_pred ''18.1.3'')
      [\<lparr>name = ''clangd-linux-18.1.3.zip'', browser_download_url = ''u1''\<rparr>,
       \<lparr>name = ''clangd_indexing_tools-linux-18.1.3.zip'', browser_download_url = ''u2''\<rparr>]) = 2
   \<and> find_clangd_asset \<lparr>tag_name = ''18.1.3'', assets =
      [\<lparr>name = ''clangd-linux-18.1.3.zip'', browser_download_url = ''u1''\<rparr>,
       \<lparr>name = ''clangd_indexing_tools-linux-18.1.3.zip'', browser_download_url = ''u2''\<rparr>]\<rparr>
     = Inr \<lparr>name = ''clangd-linux-18.1.3.zip'', browser_download_url = ''u1''\<rparr>"
  by code_simp

theorem asset_selection_first_match_witness:
  "find_clangd_asset \<lparr>tag_name = ''18.1.3'', assets =
      [\<lparr>name = ''clangd-mac-18.1.3.zip'', browser_download_url = ''u0''\<rparr>,
       \<lparr>name = ''clangd-linux-18.1.3.zip'', browser_download_url = ''u1''\<rparr>]\<rparr>
     = Inr \<lparr>name = ''clangd-linux-18.1.3.zip'', browser_download_url = ''u1''\<rparr>
   \<and> find_clangd_asset \<lparr>tag_name = ''18.1.3'', assets =
      [\<lparr>name = ''clangd-mac-18.1.3.zip'', browser_download_url = ''u0''\<rparr>]\<rparr>
     = Inl (Error ''Could not find clangd Linux asset'')"
proof -
  let ?r1 = "\<lparr>tag_name = ''18.1.3'', assets =
      [\<lparr>name = ''clangd-mac-18.1.3.zip'', browser_download_url = ''u0''\<rparr>,
       \<lparr>name = ''clangd-linux-18.1.3.zip'', browser_download_url = ''u1''\<rparr>]\<rparr>"
  let ?r2 = "\<lparr>tag_name = ''18.1.3'', assets =
      [\<lparr>name = ''clangd-mac-18.1.3.zip'', browser_download_url = ''u0''\<rparr>]\<rparr>"
  have f1: "filter (clangd_asset_pred (tag_name ?r1)) (assets ?r1)
     = [\<lparr>name = ''clangd-linux-18.1.3.zip'', browser_download_url = ''u1''\<rparr>]"
    by code_simp
  have f2: "filter (clangd_asset_pred (tag_name ?r2)) (assets ?r2) = []"
    by code_simp
  note g1 = asset_selection_first_match [of ?r1, THEN conjunct1]
  note g2 = asset_selection_first_match [of ?r2, THEN conjunct1]
  show ?thesis
    unfolding g1 g2 f1 f2 by simp
qed


section \<open>Properties: the offline path resolver\<close>

lemma resolver_guard:
  "(case getDepsPath flag of
      None \<Rightarrow> None
    | Some depsPath \<Rightarrow> if \<not> isEnabled flag \<or> depsPath = [] then None else Some (f depsPath))
     = None
   \<longleftrightarrow> \<not> OPENCODE_OFFLINE_MODE flag \<or> OPENCODE_OFFLINE_DEPS_PATH flag = None
       \<or> OPENCODE_OFFLINE_DEPS_PATH flag = Some []"
  by (simp add: getDepsPath_def isEnabled_def split: option.splits)

text \<open>The claim as stated fails twice: with offline mode on and the dependency path set to
  the empty string the resolver returns \<^verbatim>\<open>undefined\<close>, and a name with \<^verbatim>\<open>..\<close> segments
  resolves to a path outside the dependency path.\<close>

theorem offline_resolver_counterexample:
  "resolveBinary \<lparr>OPENCODE_OFFLINE_MODE = True, OPENCODE_OFFLINE_DEPS_PATH = Some []\<rparr>
      ''rg'' ''ripgrep'' = None
   \<and> resolveNpmPackage \<lparr>OPENCODE_OFFLINE_MODE = True, OPENCODE_OFFLINE_DEPS_PATH = Some ''/opt/deps''\<rparr>
      ''../../../etc/passwd'' = Some ''/etc/passwd''
   \<and> \<not> lies_under ''/opt/deps'' ''/etc/passwd''
   \<and> \<not> prefix ''/opt/deps'' ''/etc/passwd''"
  by code_simp

text \<open>
  C9, as the code has it. Each of \<^verbatim>\<open>resolveBinary\<close>, \<^verbatim>\<open>resolveNpmPackage\<close> and
  \<^verbatim>\<open>resolveLspBinary\<close> returns \<^verbatim>\<open>undefined\<close> if and only if offline mode is disabled or
  the dependency path is unset or the empty string. Otherwise it returns
  \<^verbatim>\<open>path.join\<close> of the dependency path with the fixed layout (subpath/name,
  node_modules/pkg, lsp/lspName/bin/binaryName), and that path lies under the dependency
  path whenever no segment of the name arguments is \<^verbatim>\<open>..\<close>.
\<close>

theorem offline_resolver:
  "(resolveBinary flag nm subpath = None \<longleftrightarrow>
      \<not> OPENCODE_OFFLINE_MODE flag \<or> OPENCODE_OFFLINE_DEPS_PATH flag = None
        \<or> OPENCODE_OFFLINE_DEPS_PATH flag = Some [])
   \<and> (resolveNpmPackage flag pkg = None \<longleftrightarrow>
      \<not> OPENCODE_OFFLINE_MODE flag \<or> OPENCODE_OFFLINE_DEPS_PATH flag = None
        \<or> OPENCODE_OFFLINE_DEPS_PATH flag = Some [])
   \<and> (resolveLspBinary flag lspName binaryName = None \<longleftrightarrow>
      \<not> OPENCODE_OFFLINE_MODE flag \<or> OPENCODE_OFFLINE_DEPS_PATH flag = None
        \<or> OPENCODE_OFFLINE_DEPS_PATH flag = Some [])
   \<and> (OPENCODE_OFFLINE_MODE flag \<and> OPENCODE_OFFLINE_DEPS_PATH flag = Some d \<and> d \<noteq> [] \<longrightarrow>
        resolveBinary flag nm subpath = Some (path_join [d, subpath, nm])
      \<and> resolveNpmPackage flag pkg = Some (path_join [d, ''node_modules'', pkg])
      \<and> resolveLspBinary flag lspName binaryName
          = Some (path_join [d, ''lsp'', lspName, ''bin'', binaryName])
      \<and> (no_parent_segment subpath \<and> no_parent_segment nm \<longrightarrow>
            lies_under d (path_join [d, subpath, nm]))
      \<and> (no_parent_segment pkg \<longrightarrow> lies_under d (path_join [d, ''node_modules'', pkg]))
      \<and> (no_parent_segment lspName \<and> no_parent_segment binaryName \<longrightarrow>
            lies_under d (path_join [d, ''lsp'', lspName, ''bin'', binaryName])))"
proof (intro conjI impI)
  show "resolveBinary flag nm subpath = None \<longleftrightarrow>
      \<not> OPENCODE_OFFLINE_MODE flag \<or> OPENCODE_OFFLINE_DEPS_PATH flag = None
        \<or> OPENCODE_OFFLINE_DEPS_PATH flag = Some []"
    unfolding resolveBinary_def by (rule resolver_guard)
  show "resolveNpmPackage flag pkg = None \<longleftrightarrow>
      \<not> OPENCODE_OFFLINE_MODE flag \<or> OPENCODE_OFFLINE_DEPS_PATH flag = None
        \<or> OPENCODE_OFFLINE_DEPS_PATH flag = Some []"
    unfolding resolveNpmPackage_def by (rule resolver_guard)
  show "resolveLspBinary flag lspName binaryName = None \<longleftrightarrow>
      \<not> OPENCODE_OFFLINE_MODE flag \<or> OPENCODE_OFFLINE_DEPS_PATH flag = None
        \<or> OPENCODE_OFFLINE_DEPS_PATH flag = Some []"
    unfolding resolveLspBinary_def by (rule resolver_guard)
next
  assume on: "OPENCODE_OFFLINE_MODE flag \<and> OPENCODE_OFFLINE_DEPS_PATH flag = Some d \<and> d \<noteq> []"
  then show "resolveBinary flag nm subpath = Some (path_join [d, subpath, nm])"
    by (simp add: resolveBinary_def getDepsPath_def isEnabled_def)
  from on show "resolveNpmPackage flag pkg = Some (path_join [d, ''node_modules'', pkg])"
    by (simp add: resolveNpmPackage_def getDepsPath_def isEnabled_def)
  from on show "resolveLspBinary flag lspName binaryName
      = Some (path_join [d, ''lsp'', lspName, ''bin'', binaryName])"
    by (simp add: resolveLspBinary_def getDepsPath_def isEnabled_def)
  have fixed: "no_parent_segment ''node_modules''" "no_parent_segment ''lsp''"
    "no_parent_segment ''bin''"
    by (simp_all add: no_parent_segment_def)
  from on have d: "d \<noteq> []" by simp
  {
    assume "no_parent_segment subpath \<and> no_parent_segment nm"
    then show "lies_under d (path_join [d, subpath, nm])"
      by (intro path_join_lies_under [OF d]) simp
  }
  {
    assume "no_parent_segment pkg"
    then show "lies_under d (path_join [d, ''node_modules'', pkg])"
      by (intro path_join_lies_under [OF d]) (simp add: fixed)
  }
  {
    assume "no_parent_segment lspName \<and> no_parent_segment binaryName"
    then show "lies_under d (path_join [d, ''lsp'', lspName, ''bin'', binaryName])"
      by (intro path_join_lies_under [OF d]) (simp add: fixed)
  }
qed

theorem offline_resolver_witness:
  "resolveBinary \<lparr>OPENCODE_OFFLINE_MODE = True, OPENCODE_OFFLINE_DEPS_PATH = Some ''/opt/deps''\<rparr>
      ''rg'' ''ripgrep'' = Some ''/opt/deps/ripgrep/rg''
   \<and> lies_under ''/opt/deps'' ''/opt/deps/ripgrep/rg''
   \<and> resolveNpmPackage \<lparr>OPENCODE_OFFLINE_MODE = True, OPENCODE_OFFLINE_DEPS_PATH = Some ''/opt/deps''\<rparr>
      ''pyright'' = Some ''/opt/deps/node_modules/pyright''
   \<and> lies_under ''/opt/deps'' ''/opt/deps/node_modules/pyright''
   \<and> resolveLspBinary \<lparr>OPENCODE_OFFLINE_MODE = True, OPENCODE_OFFLINE_DEPS_PATH = Some ''/opt/deps''\<rparr>
      ''clangd'' ''clangd'' = Some ''/opt/deps/lsp/clangd/bin/clangd''
   \<and> lies_under ''/opt/deps'' ''/opt/deps/lsp/clangd/bin/clangd''
   \<and> resolveBinary \<lparr>OPENCODE_OFFLINE_MODE = False, OPENCODE_OFFLINE_DEPS_PATH = Some ''/opt/deps''\<rparr>
      ''rg'' ''ripgrep'' = None"
proof -
  have j: "path_join [''/opt/deps'', ''ripgrep'', ''rg''] = ''/opt/deps/ripgrep/rg''"
    "path_join [''/opt/deps'', ''node_modules'', ''pyright''] = ''/opt/deps/node_modules/pyright''"
    "path_join [''/opt/deps'', ''lsp'', ''clangd'', ''bin'', ''clangd'']
      = ''/opt/deps/lsp/clangd/bin/clangd''"
    by code_simp+
  have n: "no_parent_segment ''ripgrep''" "no_parent_segment ''rg''"
    "no_parent_segment ''pyright''" "no_parent_segment ''clangd''"
    by code_simp+
  from offline_resolver [of
      "\<lparr>OPENCODE_OFFLINE_MODE = True, OPENCODE_OFFLINE_DEPS_PATH = Some ''/opt/deps''\<rparr>"
      "''rg''" "''ripgrep''" "''pyright''" "''clangd''" "''clangd''" "''/opt/deps''"]
    offline_resolver [of
      "\<lparr>OPENCODE_OFFLINE_MODE = False, OPENCODE_OFFLINE_DEPS_PATH = Some ''/opt/deps''\<rparr>"
      "''rg''" "''ripgrep''"]
  show ?thesis
    by (simp add: j n)
qed


section \<open>Properties: the archive fetcher\<close>

lemma thenIO_log [simp]:
  "thenIO (console_log s) m w = m (w\<lparr>out_log := out_log w @ [s]\<rparr>)"
  by (simp add: thenIO_def bindIO_def console_log_def)




lemma extractTarGz_result:
  "fst (extractTarGz e archivePath destDir n w)
     = (if exitCode (run e []
            ([''tar'', ''-xzf'', archivePath, ''-C'', destDir]
              @ (if n > 0 then [''--strip-components='' @ show_nat n] else [])) (files w)) \<noteq> 0
        then Inl (Error (''Failed to extract '' @ archivePath))
        else Inr ())"
  by (simp add: extractTarGz_def Let_def bindIO_def spawn_def throw_def ret_def)

lemma extractZip_result:
  "fst (extractZip e archivePath destDir w)
     = (let p = run e [] [''unzip'', ''-o'', ''-q'', archivePath, ''-d'', destDir] (files w)
        in if exitCode p \<noteq> 0
           then Inl (Error (''Failed to extract '' @ archivePath @ '': '' @ stderr p))
           else Inr ())"
  by (simp add: extractZip_def Let_def bindIO_def spawn_def throw_def ret_def)

text \<open>
  C3 at a failing input: \<^verbatim>\<open>tar\<close> exits with code 2 and the diagnostic
  "tar: Unexpected EOF in archive" on its error stream. \<^verbatim>\<open>extractTarGz\<close> throws
  "Failed to extract a.tar.gz", which does not hold the diagnostic; \<^verbatim>\<open>extractZip\<close>
  in the same situation appends it to its message.
\<close>

theorem extractTarGz_drops_stderr:
  "exitCode (run env_failing [] [''tar'', ''-xzf'', ''a.tar.gz'', ''-C'', ''out'', ''--strip-components=1'']
      (files world0)) = 2
   \<and> stderr (run env_failing [] [''tar'', ''-xzf'', ''a.tar.gz'', ''-C'', ''out'', ''--strip-components=1'']
      (files world0)) = ''tar: Unexpected EOF in archive''
   \<and> fst (extractTarGz env_failing ''a.tar.gz'' ''out'' 1 world0)
       = Inl (Error ''Failed to extract a.tar.gz'')
   \<and> \<not> sublist ''tar: Unexpected EOF in archive'' ''Failed to extract a.tar.gz''
   \<and> fst (extractZip env_failing ''a.zip'' ''out'' world0)
       = Inl (Error ''Failed to extract a.zip: tar: Unexpected EOF in archive'')"
proof -
  have "\<not> sublist ''tar: Unexpected EOF in archive'' ''Failed to extract a.tar.gz''"
    by code_simp
  moreover have "show_nat 1 = ''1''"
    by code_simp
  ultimately show ?thesis
    by (simp add: extractTarGz_result extractZip_result env_failing_def)
qed


section \<open>Properties: the packaging script\<close>

lemma launcher_path_eq: "launcher_path = ''dist/opencode-offline-linux-x64/opencode-offline''"
  by code_simp

lemma wrapperScript_lines:
  \<open>split_on newline wrapperScript =
     [''#!/bin/bash'',
      ''# OpenCode Offline Wrapper Script'',
      ''# Sets up environment variables for offline mode and runs opencode'',
      '''',
      ''SCRIPT_DIR="$(cd "$(dirname "${BASH_SOURCE[0]}")" && pwd)"'',
      '''',
      ''export OPENCODE_OFFLINE_MODE=true'',
      ''export OPENCODE_OFFLINE_DEPS_PATH="$SCRIPT_DIR/deps"'',
      ''export OPENCODE_DISABLE_AUTOUPDATE=true'',
      ''export OPENCODE_DISABLE_LSP_DOWNLOAD=true'',
      ''export OPENCODE_DISABLE_MODELS_FETCH=true'',
      '''',
      ''exec "$SCRIPT_DIR/bin/opencode" "$@"'',
      '''']\<close>
  by code_simp

text \<open>
  C5. \<^verbatim>\<open>createWrapperScript\<close> returns unless the write of the launcher fails (the
  launcher's path is a directory, or a file lies on the way to it), and when it returns
  it leaves at the launcher's path in the bundle an executable file (mode \<^verbatim>\<open>0o755\<close>)
  whose text is the launcher script. After the line that sets \<^verbatim>\<open>SCRIPT_DIR\<close> to the
  script's own directory, the script's lines are, in this order: the export of
  \<^verbatim>\<open>OPENCODE_OFFLINE_MODE=true\<close>, of \<^verbatim>\<open>OPENCODE_OFFLINE_DEPS_PATH\<close> as the \<^verbatim>\<open>deps\<close>
  directory beside the script, of the three feature-disable variables as \<^verbatim>\<open>true\<close>,
  and last the \<^verbatim>\<open>exec\<close> of \<^verbatim>\<open>bin/opencode\<close> beside the script with all arguments
  (\<^verbatim>\<open>"$@"\<close>).
\<close>

theorem launcher_script_contents:
  \<open>fst (createWrapperScript w)
     = (case write_error (files w) ''dist/opencode-offline-linux-x64/opencode-offline'' of
          None \<Rightarrow> Inr ()
        | Some err \<Rightarrow> Inl err)
   \<and> (fst (createWrapperScript w) = Inr () \<longrightarrow>
        files (snd (createWrapperScript w)) ''dist/opencode-offline-linux-x64/opencode-offline''
          = Some (File (Bytes wrapperScript) 493))
   \<and> (\<exists>before. split_on newline wrapperScript = before @
       [''SCRIPT_DIR="$(cd "$(dirname "${BASH_SOURCE[0]}")" && pwd)"'',
        '''',
        ''export OPENCODE_OFFLINE_MODE=true'',
        ''export OPENCODE_OFFLINE_DEPS_PATH="$SCRIPT_DIR/deps"'',
        ''export OPENCODE_DISABLE_AUTOUPDATE=true'',
        ''export OPENCODE_DISABLE_LSP_DOWNLOAD=true'',
        ''export OPENCODE_DISABLE_MODELS_FETCH=true'',
        '''',
        ''exec "$SCRIPT_DIR/bin/opencode" "$@"'',
        ''''])\<close>
proof (intro conjI)
  have p: "path_join [BUNDLE_DIR, ''opencode-offline'']
      = ''dist/opencode-offline-linux-x64/opencode-offline''"
    by code_simp
  show "fst (createWrapperScript w)
      = (case write_error (files w) ''dist/opencode-offline-linux-x64/opencode-offline'' of
           None \<Rightarrow> Inr ()
         | Some err \<Rightarrow> Inl err)"
    by (cases "write_error (files w) ''dist/opencode-offline-linux-x64/opencode-offline''")
       (simp_all add: createWrapperScript_def p thenIO_def bindIO_def Bun_write_def
          fs_chmod_def console_log_def)
  show "fst (createWrapperScript w) = Inr () \<longrightarrow>
      files (snd (createWrapperScript w)) ''dist/opencode-offline-linux-x64/opencode-offline''
        = Some (File (Bytes wrapperScript) 493)"
    by (cases "write_error (files w) ''dist/opencode-offline-linux-x64/opencode-offline''")
       (simp_all add: createWrapperScript_def p thenIO_def bindIO_def Bun_write_def
          fs_chmod_def console_log_def)
  show \<open>\<exists>before. split_on newline wrapperScript = before @
       [''SCRIPT_DIR="$(cd "$(dirname "${BASH_SOURCE[0]}")" && pwd)"'',
        '''',
        ''export OPENCODE_OFFLINE_MODE=true'',
        ''export OPENCODE_OFFLINE_DEPS_PATH="$SCRIPT_DIR/deps"'',
        ''export OPENCODE_DISABLE_AUTOUPDATE=true'',
        ''export OPENCODE_DISABLE_LSP_DOWNLOAD=true'',
        ''export OPENCODE_DISABLE_MODELS_FETCH=true'',
        '''',
        ''exec "$SCRIPT_DIR/bin/opencode" "$@"'',
        '''']\<close>
    unfolding wrapperScript_lines by (rule exI [of _ "[_, _, _, _]"]) simp
qed

theorem launcher_script_contents_witness:
  "write_error (files world0) ''dist/opencode-offline-linux-x64/opencode-offline'' = None
   \<and> fst (createWrapperScript world0) = Inr ()
   \<and> files (snd (createWrapperScript world0)) ''dist/opencode-offline-linux-x64/opencode-offline''
       = Some (File (Bytes wrapperScript) 493)"
proof -
  have free: "write_error (files world0) ''dist/opencode-offline-linux-x64/opencode-offline'' = None"
    by (simp add: write_error_def world0_def is_file_def)
  from launcher_script_contents [of world0] show ?thesis
    by (simp add: free)
qed




section \<open>Properties: the acquisition script\<close>

subsection \<open>The paths of the dependency root\<close>

lemma deps_paths:
  "manifest_path = ''dist/offline-deps/manifest.json''"
  "path_join [DEPS_DIR, ''manifest.json''] = ''dist/offline-deps/manifest.json''"
  "path_join [DEPS_DIR, ''ripgrep''] = ''dist/offline-deps/ripgrep''"
  "path_join [DEPS_DIR, ''ripgrep-'' @ RIPGREP_VERSION @ ''-'' @ ''x86_64-unknown-linux-musl'' @ ''.tar.gz'']
     = ''dist/offline-deps/ripgrep-14.1.1-x86_64-unknown-linux-musl.tar.gz''"
  "path_join [''dist/offline-deps/ripgrep'', ''rg''] = ''dist/offline-deps/ripgrep/rg''"
  "path_join [DEPS_DIR, ''lsp'', ''clangd''] = ''dist/offline-deps/lsp/clangd''"
  "path_join [DEPS_DIR, ''lsp''] = ''dist/offline-deps/lsp''"
  "path_join [''dist/offline-deps/lsp/clangd'', ''bin'', ''clangd'']
     = ''dist/offline-deps/lsp/clangd/bin/clangd''"
  "path_join [DEPS_DIR, ''lsp'', ''rust-analyzer'', ''bin''] = ''dist/offline-deps/lsp/rust-analyzer/bin''"
  "path_join [DEPS_DIR, ''rust-analyzer.gz''] = ''dist/offline-deps/rust-analyzer.gz''"
  "path_join [''dist/offline-deps/lsp/rust-analyzer/bin'', ''rust-analyzer'']
     = ''dist/offline-deps/lsp/rust-analyzer/bin/rust-analyzer''"
  "path_join [DEPS_DIR, ''node_modules''] = ''dist/offline-deps/node_modules''"
  "path_join [DEPS_DIR, ''package.json''] = ''dist/offline-deps/package.json''"
  by code_simp+

subsection \<open>What cannot make the manifest a file\<close>








lemma is_file_make_dirs [simp]: "is_file (make_dirs ps f) q = is_file f q"
  by (auto simp: is_file_def make_dirs_def split: option.splits node.splits)



























subsection \<open>What is in place when an acquisition returns\<close>

lemma ensuresD: "ensures m Q \<Longrightarrow> m w = (Inr x, w') \<Longrightarrow> Q x w'"
  by (simp add: ensures_def)

lemma bindIO_Inr:
  "bindIO m f w = (Inr y, w') \<longleftrightarrow> (\<exists>x w1. m w = (Inr x, w1) \<and> f x w1 = (Inr y, w'))"
  by (cases "m w") (auto simp: bindIO_def split: sum.splits)

lemma bindIO_Inl:
  "bindIO m f w = (Inl err, w') \<longleftrightarrow>
     m w = (Inl err, w') \<or> (\<exists>x w1. m w = (Inr x, w1) \<and> f x w1 = (Inl err, w'))"
  by (cases "m w") (auto simp: bindIO_def split: sum.splits)

lemma ensures_bindIO: "(\<And>x. ensures (f x) Q) \<Longrightarrow> ensures (bindIO m f) Q"
  by (auto simp: ensures_def bindIO_Inr)

lemma ensures_thenIO: "ensures n Q \<Longrightarrow> ensures (thenIO m n) Q"
  by (simp add: thenIO_def ensures_bindIO)

lemma ensures_if: "(b \<Longrightarrow> ensures m Q) \<Longrightarrow> (\<not> b \<Longrightarrow> ensures n Q) \<Longrightarrow> ensures (if b then m else n) Q"
  by simp

lemma ensures_throw: "ensures (throw err) Q"
  by (simp add: ensures_def throw_def)

lemma ensures_chmod_log_ret:
  "ensures (thenIO (fs_chmod p k) (thenIO (console_log s) (ret v)))
     (\<lambda>x w. x = v \<and> files w p \<noteq> None)"
  by (auto simp: ensures_def thenIO_def bindIO_Inr fs_chmod_def console_log_def ret_def
      split: option.splits node.splits)

lemma ensures_downloadRipgrep:
  "ensures (downloadRipgrep e)
     (\<lambda>x w. x = RIPGREP_VERSION \<and> files w ''dist/offline-deps/ripgrep/rg'' \<noteq> None)"
  unfolding downloadRipgrep_def Let_def deps_paths
  by (intro ensures_chmod_log_ret ensures_thenIO)

lemma ensures_downloadClangd:
  "ensures (downloadClangd e)
     (\<lambda>x w. x = tag_name (json_body (fetch e ''https://api.github.com/repos/clangd/clangd/releases/latest''))
        \<and> files w ''dist/offline-deps/lsp/clangd/bin/clangd'' \<noteq> None)"
  unfolding downloadClangd_def Let_def deps_paths
  by (intro ensures_chmod_log_ret ensures_thenIO ensures_bindIO ensures_if ensures_throw)

lemma ensures_write_chmod_unlink_log_ret:
  "a \<noteq> p \<Longrightarrow>
   ensures (thenIO (Bun_write p c) (thenIO (fs_chmod p k) (thenIO (fs_unlink a)
              (thenIO (console_log s) (ret v)))))
     (\<lambda>x w. x = v \<and> is_file (files w) p)"
  by (auto simp: ensures_def thenIO_def bindIO_Inr Bun_write_def fs_chmod_def fs_unlink_def
        console_log_def ret_def is_file_def split: option.splits node.splits)

lemma ensures_downloadRustAnalyzer:
  "ensures (downloadRustAnalyzer e)
     (\<lambda>x w. x = tag_name (json_body
                (fetch e ''https://api.github.com/repos/rust-lang/rust-analyzer/releases/latest''))
        \<and> is_file (files w) ''dist/offline-deps/lsp/rust-analyzer/bin/rust-analyzer'')"
  unfolding downloadRustAnalyzer_def Let_def deps_paths
  by (intro ensures_write_chmod_unlink_log_ret ensures_thenIO ensures_bindIO ensures_if
        ensures_throw) simp







subsection \<open>The acquisition script as a whole\<close>

text \<open>\<^verbatim>\<open>main\<close> first prepares the dependency root, which fails when the directory
  cannot be created; the acquisitions then start from the world this leaves.\<close>

lemma prepared_eq: "prepared w = snd (prepare w)"
  by (simp add: prepared_def prepare_def)

lemma download_main_eq:
  "download_main e w =
     (case fst (prepare w) of
        Inl err \<Rightarrow> (Inl err, prepared w)
      | Inr _ \<Rightarrow>
         bindIO (downloadRipgrep e) (\<lambda>ripgrepVersion.
         bindIO (downloadClangd e) (\<lambda>clangdVersion.
         bindIO (downloadRustAnalyzer e) (\<lambda>rustAnalyzerVersion.
         bindIO (installNpmPackages e) (\<lambda>npmVersions.
         thenIO (createManifest e ripgrepVersion clangdVersion rustAnalyzerVersion npmVersions)
        (thenIO (console_log (newline # ''=== Download complete ===''))
                (console_log (''Dependencies saved to: '' @ DEPS_DIR))))))) (prepared w))"
  by (simp add: download_main_def prepared_def prepare_def thenIO_def bindIO_def console_log_def
        fs_rm_def fs_mkdir_def split: option.split)


text \<open>\<^verbatim>\<open>createManifest\<close> returns unless the write of the manifest fails; then nothing is
  written.\<close>

lemma createManifest_result:
  "createManifest e rg cl ra npm w
     = (case write_error (files w) manifest_path of
          Some err \<Rightarrow>
            (Inl err, w\<lparr>out_log := out_log w @ [newline # ''=== Creating manifest ==='']\<rparr>)
        | None \<Rightarrow>
            (Inr (), w\<lparr>files := (make_dirs (path_ancestors manifest_path) (files w))
                    (manifest_path \<mapsto> File (JsonDoc (Manifest_json (acquired_manifest e rg cl ra npm)))
                       (case files w manifest_path of Some (File _ m) \<Rightarrow> m | _ \<Rightarrow> 420)),
                 out_log := out_log w @ [newline # ''=== Creating manifest ==='', ''Manifest created'']\<rparr>))"
  by (simp add: createManifest_def Let_def acquired_manifest_def deps_paths thenIO_def bindIO_def
        Bun_write_def console_log_def split: option.split)

lemma createManifest_returned:
  assumes "createManifest e rg cl ra npm w = (Inr x, w')"
  shows "\<exists>mode. files w' manifest_path
      = Some (File (JsonDoc (Manifest_json (acquired_manifest e rg cl ra npm))) mode)"
    and "no_manifest w \<Longrightarrow> files w' manifest_path
      = Some (File (JsonDoc (Manifest_json (acquired_manifest e rg cl ra npm))) 420)"
  using assms unfolding createManifest_result
  by (auto simp: no_manifest_def is_file_def split: option.splits node.splits)




text \<open>What a run that returns has done, with no assumption on the environment.\<close>

lemma download_main_success:
  assumes "fst (download_main e w) = Inr ()"
  shows "\<exists>rg w1 cl w2 ra w3 npm w4 mode.
          downloadRipgrep e (prepared w) = (Inr rg, w1)
        \<and> downloadClangd e w1 = (Inr cl, w2)
        \<and> downloadRustAnalyzer e w2 = (Inr ra, w3)
        \<and> installNpmPackages e w3 = (Inr npm, w4)
        \<and> files (snd (download_main e w)) manifest_path
            = Some (File (JsonDoc (Manifest_json (acquired_manifest e rg cl ra npm))) mode)"
proof -
  obtain w' where dm: "download_main e w = (Inr (), w')"
    using assms by (cases "download_main e w") auto
  from dm have ready: "\<exists>u. fst (prepare w) = Inr u"
    by (cases "fst (prepare w)") (auto simp: download_main_eq)
  with dm have "bindIO (downloadRipgrep e) (\<lambda>ripgrepVersion.
         bindIO (downloadClangd e) (\<lambda>clangdVersion.
         bindIO (downloadRustAnalyzer e) (\<lambda>rustAnalyzerVersion.
         bindIO (installNpmPackages e) (\<lambda>npmVersions.
         thenIO (createManifest e ripgrepVersion clangdVersion rustAnalyzerVersion npmVersions)
        (thenIO (console_log (newline # ''=== Download complete ===''))
                (console_log (''Dependencies saved to: '' @ DEPS_DIR))))))) (prepared w)
      = (Inr (), w')"
    by (auto simp: download_main_eq)
  then obtain rg w1 cl w2 ra w3 npm w4 where
    s1: "downloadRipgrep e (prepared w) = (Inr rg, w1)" and
    s2: "downloadClangd e w1 = (Inr cl, w2)" and
    s3: "downloadRustAnalyzer e w2 = (Inr ra, w3)" and
    s4: "installNpmPackages e w3 = (Inr npm, w4)" and
    cm: "thenIO (createManifest e rg cl ra npm)
          (thenIO (console_log (newline # ''=== Download complete ===''))
             (console_log (''Dependencies saved to: '' @ DEPS_DIR))) w4 = (Inr (), w')"
    unfolding bindIO_Inr by blast
  from cm obtain w5 where "createManifest e rg cl ra npm w4 = (Inr (), w5)"
    and "files w' = files w5"
    by (auto simp: thenIO_def bindIO_def console_log_def split: prod.splits sum.splits)
  with createManifest_returned(1) [of e rg cl ra npm w4 "()" w5]
  have "\<exists>mode. files w' manifest_path
      = Some (File (JsonDoc (Manifest_json (acquired_manifest e rg cl ra npm))) mode)"
    by simp
  with s1 s2 s3 s4 dm show ?thesis
    by auto
qed


subsection \<open>A run in which every acquisition succeeds\<close>



lemma show_nat_1: "show_nat 1 = ''1''"
  by code_simp

lemma deps_ancestors:
  "path_ancestors ''dist/offline-deps'' = [''dist'']"
  "path_ancestors ''dist/offline-deps/ripgrep'' = [''dist'', ''dist/offline-deps'']"
  "path_ancestors ''dist/offline-deps/ripgrep-14.1.1-x86_64-unknown-linux-musl.tar.gz''
     = [''dist'', ''dist/offline-deps'']"
  "path_ancestors ''dist/offline-deps/lsp/clangd''
     = [''dist'', ''dist/offline-deps'', ''dist/offline-deps/lsp'']"
  "path_ancestors ''dist/offline-deps/clangd-linux-18.1.3.zip'' = [''dist'', ''dist/offline-deps'']"
  "path_ancestors ''dist/offline-deps/lsp/rust-analyzer/bin''
     = [''dist'', ''dist/offline-deps'', ''dist/offline-deps/lsp'',
        ''dist/offline-deps/lsp/rust-analyzer'']"
  "path_ancestors ''dist/offline-deps/rust-analyzer.gz'' = [''dist'', ''dist/offline-deps'']"
  "path_ancestors ''dist/offline-deps/lsp/rust-analyzer/bin/rust-analyzer''
     = [''dist'', ''dist/offline-deps'', ''dist/offline-deps/lsp'',
        ''dist/offline-deps/lsp/rust-analyzer'', ''dist/offline-deps/lsp/rust-analyzer/bin'']"
  "path_ancestors ''dist/offline-deps/node_modules'' = [''dist'', ''dist/offline-deps'']"
  "path_ancestors ''dist/offline-deps/package.json'' = [''dist'', ''dist/offline-deps'']"
  "path_ancestors ''dist/offline-deps/manifest.json'' = [''dist'', ''dist/offline-deps'']"
  by code_simp+

lemma is_file_upd [simp]:
  "is_file (f(p \<mapsto> n)) q = (if q = p then n \<noteq> Dir else is_file f q)"
  by (cases n) (simp_all add: is_file_def)

lemma is_file_del [simp]: "is_file (f(p := None)) q = (q \<noteq> p \<and> is_file f q)"
  by (simp add: is_file_def)

lemma make_dirs_Dir:
  "make_dirs ps f q = Some Dir \<longleftrightarrow> f q = Some Dir \<or> (q \<in> set ps \<and> f q = None)"
  by (auto simp: make_dirs_def)

lemma make_dirs_None:
  "make_dirs ps f q = None \<longleftrightarrow> q \<notin> set ps \<and> f q = None"
  by (auto simp: make_dirs_def)

lemma is_file_if [simp]:
  "is_file (\<lambda>q. if C q then g q else h q) p = (if C p then is_file g p else is_file h p)"
  by (simp add: is_file_def)

lemma is_file_const [simp]: "is_file (\<lambda>q. x) p = (\<exists>c m. x = Some (File c m))"
  by (auto simp: is_file_def split: option.splits node.splits)

lemma is_file_moved [simp]:
  "is_file (\<lambda>q. f (src @ drop n q)) p = is_file f (src @ drop n p)"
  by (simp add: is_file_def)

lemma downloadRipgrep_env_ok:
  assumes "unobstructed w"
  shows "fst (downloadRipgrep (env_ok t) w) = Inr ''14.1.1''"
  using assms
  unfolding downloadRipgrep_def Let_def deps_paths
  by (simp add: downloadFile_def extractTarGz_def unobstructed_def deps_dirs_def deps_files_def
        mkdir_error_def write_error_def deps_ancestors make_dirs_Dir
        thenIO_def bindIO_def ret_def throw_def spawn_def Bun_write_def fs_mkdir_def fs_unlink_def
        fs_chmod_def console_log_def env_ok_def show_nat_1 RIPGREP_VERSION_def)

lemma downloadRipgrep_env_ok_keeps:
  assumes "unobstructed w"
  shows "unobstructed (snd (downloadRipgrep (env_ok t) w))"
  using assms
  unfolding downloadRipgrep_def Let_def deps_paths
  by (simp add: downloadFile_def extractTarGz_def unobstructed_def deps_dirs_def deps_files_def
        mkdir_error_def write_error_def deps_ancestors make_dirs_Dir
        thenIO_def bindIO_def ret_def throw_def spawn_def Bun_write_def fs_mkdir_def fs_unlink_def
        fs_chmod_def console_log_def env_ok_def show_nat_1 RIPGREP_VERSION_def)

lemma clangd_asset_env_ok:
  "find_clangd_asset (json_body (fetch (env_ok t) ''https://api.github.com/repos/clangd/clangd/releases/latest''))
     = Inr \<lparr>name = ''clangd-linux-18.1.3.zip'', browser_download_url = ''http://h/linux.zip''\<rparr>"
  "tag_name (json_body (fetch (env_ok t) ''https://api.github.com/repos/clangd/clangd/releases/latest''))
     = ''18.1.3''"
  "ok (fetch (env_ok t) u)"
  "path_join [DEPS_DIR, ''clangd-linux-18.1.3.zip''] = ''dist/offline-deps/clangd-linux-18.1.3.zip''"
  "path_join [DEPS_DIR, ''lsp'', ''clangd_'' @ ''18.1.3''] = ''dist/offline-deps/lsp/clangd_18.1.3''"
  by code_simp+

lemma downloadClangd_env_ok:
  assumes "unobstructed w"
  shows "fst (downloadClangd (env_ok t) w) = Inr ''18.1.3''"
  using assms
  unfolding downloadClangd_def Let_def deps_paths clangd_asset_env_ok
  by (simp add: clangd_asset_env_ok downloadFile_def extractZip_def lift_def
        unobstructed_def deps_dirs_def deps_files_def
        mkdir_error_def write_error_def deps_ancestors make_dirs_Dir
        thenIO_def bindIO_def ret_def throw_def spawn_def Bun_write_def fs_mkdir_def fs_unlink_def
        fs_chmod_def fs_rm_def fs_rename_def parent_missing_def under_def make_dirs_None
        console_log_def env_ok_def)

lemma downloadClangd_env_ok_keeps:
  assumes "unobstructed w"
  shows "unobstructed (snd (downloadClangd (env_ok t) w))"
  using assms
  unfolding downloadClangd_def Let_def deps_paths clangd_asset_env_ok
  by (simp add: clangd_asset_env_ok downloadFile_def extractZip_def lift_def
        unobstructed_def deps_dirs_def deps_files_def
        mkdir_error_def write_error_def deps_ancestors make_dirs_Dir
        thenIO_def bindIO_def ret_def throw_def spawn_def Bun_write_def fs_mkdir_def fs_unlink_def
        fs_chmod_def fs_rm_def fs_rename_def parent_missing_def under_def make_dirs_None
        console_log_def env_ok_def)

lemma make_dirs_existing: "f q \<noteq> None \<Longrightarrow> make_dirs ps f q = f q"
  by (simp add: make_dirs_def)

lemma rust_analyzer_asset_env_ok:
  "find_rust_analyzer_asset
     (json_body (fetch (env_ok t) ''https://api.github.com/repos/rust-lang/rust-analyzer/releases/latest''))
     = Inr \<lparr>name = ''rust-analyzer-x86_64-unknown-linux-gnu.gz'', browser_download_url = ''http://h/ra.gz''\<rparr>"
  "tag_name (json_body (fetch (env_ok t) ''https://api.github.com/repos/rust-lang/rust-analyzer/releases/latest''))
     = ''2024-05-06''"
  by code_simp+

lemma downloadRustAnalyzer_env_ok:
  assumes "unobstructed w"
  shows "fst (downloadRustAnalyzer (env_ok t) w) = Inr ''2024-05-06''"
  using assms
  unfolding downloadRustAnalyzer_def Let_def deps_paths rust_analyzer_asset_env_ok
  by (simp add: clangd_asset_env_ok downloadFile_def lift_def make_dirs_existing
        unobstructed_def deps_dirs_def deps_files_def
        mkdir_error_def write_error_def deps_ancestors make_dirs_Dir
        thenIO_def bindIO_def ret_def throw_def spawn_def Bun_write_def fs_mkdir_def fs_unlink_def
        fs_chmod_def console_log_def env_ok_def)

lemma downloadRustAnalyzer_env_ok_keeps:
  assumes "unobstructed w"
  shows "unobstructed (snd (downloadRustAnalyzer (env_ok t) w))"
  using assms
  unfolding downloadRustAnalyzer_def Let_def deps_paths rust_analyzer_asset_env_ok
  by (simp add: clangd_asset_env_ok downloadFile_def lift_def make_dirs_existing
        unobstructed_def deps_dirs_def deps_files_def
        mkdir_error_def write_error_def deps_ancestors make_dirs_Dir
        thenIO_def bindIO_def ret_def throw_def spawn_def Bun_write_def fs_mkdir_def fs_unlink_def
        fs_chmod_def console_log_def env_ok_def)

lemma read_versions_env_ok:
  "read_versions (Some (JObj [(''pyright'', JStr ''1.1.400'')])) = [(''pyright'', JStr ''1.1.400'')]"
  by code_simp

lemma installNpmPackages_env_ok:
  assumes "unobstructed w"
  shows "fst (installNpmPackages (env_ok t) w) = Inr [(''pyright'', JStr ''1.1.400'')]"
  using assms
  unfolding installNpmPackages_def Let_def deps_paths
  by (simp add: lift_def JSON_parse_def get_dependencies_def read_versions_env_ok
        unobstructed_def deps_dirs_def deps_files_def
        mkdir_error_def write_error_def deps_ancestors make_dirs_Dir
        thenIO_def bindIO_def ret_def throw_def spawn_def Bun_write_def fs_mkdir_def fs_readFile_def
        console_log_def env_ok_def DEPS_DIR_def)

lemma installNpmPackages_env_ok_keeps:
  assumes "unobstructed w"
  shows "unobstructed (snd (installNpmPackages (env_ok t) w))"
  using assms
  unfolding installNpmPackages_def Let_def deps_paths
  by (simp add: lift_def JSON_parse_def get_dependencies_def read_versions_env_ok
        unobstructed_def deps_dirs_def deps_files_def
        mkdir_error_def write_error_def deps_ancestors make_dirs_Dir
        thenIO_def bindIO_def ret_def throw_def spawn_def Bun_write_def fs_mkdir_def fs_readFile_def
        console_log_def env_ok_def DEPS_DIR_def)

lemma prepare_ok:
  assumes "\<not> is_file (files w) ''dist''"
  shows "fst (prepare w) = Inr ()" and "unobstructed (prepared w)"
  using assms
  by (simp_all add: prepare_def prepared_def unobstructed_def deps_dirs_def deps_files_def
        mkdir_error_def deps_ancestors make_dirs_Dir DEPS_DIR_def under_def
        thenIO_def bindIO_def fs_rm_def fs_mkdir_def console_log_def)

lemma createManifest_env_ok:
  assumes "unobstructed w"
  shows "fst (createManifest e rg cl ra npm w) = Inr ()"
  using assms
  by (simp add: createManifest_result deps_paths write_error_def deps_ancestors
        unobstructed_def deps_dirs_def deps_files_def)


lemma ensures_installNpmPackages_env_ok:
  "ensures (installNpmPackages (env_ok t)) (\<lambda>x w. x = [(''pyright'', JStr ''1.1.400'')])"
  unfolding installNpmPackages_def Let_def deps_paths
  apply (intro ensures_thenIO)
  apply (simp add: ensures_def lift_def JSON_parse_def get_dependencies_def read_versions_env_ok
        thenIO_def bindIO_def ret_def throw_def spawn_def fs_readFile_def
        console_log_def env_ok_def DEPS_DIR_def)
  done

lemma fst_bindIO:
  "fst (bindIO m f w) = (case fst (m w) of Inl err \<Rightarrow> Inl err | Inr x \<Rightarrow> fst (f x (snd (m w))))"
  by (cases "m w") (auto simp: bindIO_def split: sum.splits)

lemma download_main_env_ok:
  assumes "\<not> is_file (files w) ''dist''"
  shows "fst (download_main (env_ok t) w) = Inr ()"
proof -
  let ?e = "env_ok t"
  let ?w1 = "snd (downloadRipgrep ?e (prepared w))"
  let ?w2 = "snd (downloadClangd ?e ?w1)"
  let ?w3 = "snd (downloadRustAnalyzer ?e ?w2)"
  let ?w4 = "snd (installNpmPackages ?e ?w3)"
  note u0 = prepare_ok(2) [OF assms]
  note u1 = downloadRipgrep_env_ok_keeps [OF u0, of t]
  note u2 = downloadClangd_env_ok_keeps [OF u1, of t]
  note u3 = downloadRustAnalyzer_env_ok_keeps [OF u2, of t]
  note u4 = installNpmPackages_env_ok_keeps [OF u3, of t]
  show ?thesis
    by (simp add: download_main_eq prepare_ok(1) [OF assms] fst_bindIO
          downloadRipgrep_env_ok [OF u0] downloadClangd_env_ok [OF u1]
          downloadRustAnalyzer_env_ok [OF u2] installNpmPackages_env_ok [OF u3]
          thenIO_def createManifest_env_ok [OF u4] console_log_def)
qed



section \<open>Properties: the manifest\<close>








lemma download_main_success_results:
  assumes "fst (download_main e w) = Inr ()"
  shows "\<exists>npm mode wa wb.
      installNpmPackages e wa = (Inr npm, wb)
    \<and> files (snd (download_main e w)) manifest_path
        = Some (File (JsonDoc (Manifest_json (acquired_manifest e RIPGREP_VERSION
            (tag_name (json_body (fetch e ''https://api.github.com/repos/clangd/clangd/releases/latest'')))
            (tag_name (json_body (fetch e ''https://api.github.com/repos/rust-lang/rust-analyzer/releases/latest'')))
            npm))) mode)"
proof -
  from download_main_success [OF assms]
  obtain rg w1 cl w2 ra w3 npm w4 mode where
    s1: "downloadRipgrep e (prepared w) = (Inr rg, w1)" and
    s2: "downloadClangd e w1 = (Inr cl, w2)" and
    s3: "downloadRustAnalyzer e w2 = (Inr ra, w3)" and
    s4: "installNpmPackages e w3 = (Inr npm, w4)" and
    m: "files (snd (download_main e w)) manifest_path
        = Some (File (JsonDoc (Manifest_json (acquired_manifest e rg cl ra npm))) mode)"
    by blast
  from ensuresD [OF ensures_downloadRipgrep s1] have "rg = RIPGREP_VERSION" by simp
  moreover from ensuresD [OF ensures_downloadClangd s2]
  have "cl = tag_name (json_body (fetch e ''https://api.github.com/repos/clangd/clangd/releases/latest''))"
    by simp
  moreover from ensuresD [OF ensures_downloadRustAnalyzer s3]
  have "ra = tag_name (json_body (fetch e ''https://api.github.com/repos/rust-lang/rust-analyzer/releases/latest''))"
    by simp
  ultimately show ?thesis using s4 m by blast
qed

text \<open>
  C8. Take any two runs of the acquisition script that return, in any two environments
  and worlds. Each leaves a manifest whose ripgrep entry is the constant
  \<^verbatim>\<open>RIPGREP_VERSION\<close>, so the two entries are the same text; whose clangd and
  rust-analyzer entries are the tags the resolver answered in that run; whose npm entry
  is what the installer step returned in that run; whose \<^verbatim>\<open>created\<close> is that run's
  clock; and whose other fields are fixed. Hence, when the resolver and the installer
  answer the same in both runs, the two manifests have the same components and differ at
  most in \<^verbatim>\<open>created\<close>: with \<^verbatim>\<open>created\<close> set to a common value their JSON texts are
  equal.
\<close>

theorem pinned_components_deterministic:
  assumes "fst (download_main e1 w1) = Inr ()" and "fst (download_main e2 w2) = Inr ()"
  shows "\<exists>m1 m2 mode1 mode2.
      files (snd (download_main e1 w1)) manifest_path = Some (File (JsonDoc (Manifest_json m1)) mode1)
    \<and> files (snd (download_main e2 w2)) manifest_path = Some (File (JsonDoc (Manifest_json m2)) mode2)
    \<and> ripgrep (components m1) = RIPGREP_VERSION \<and> ripgrep (components m2) = RIPGREP_VERSION
    \<and> JSON_stringify (JStr (ripgrep (components m1))) = JSON_stringify (JStr (ripgrep (components m2)))
    \<and> clangd (components m1)
        = tag_name (json_body (fetch e1 ''https://api.github.com/repos/clangd/clangd/releases/latest''))
    \<and> clangd (components m2)
        = tag_name (json_body (fetch e2 ''https://api.github.com/repos/clangd/clangd/releases/latest''))
    \<and> rustAnalyzer (components m1)
        = tag_name (json_body (fetch e1 ''https://api.github.com/repos/rust-lang/rust-analyzer/releases/latest''))
    \<and> rustAnalyzer (components m2)
        = tag_name (json_body (fetch e2 ''https://api.github.com/repos/rust-lang/rust-analyzer/releases/latest''))
    \<and> (\<exists>wa wb. installNpmPackages e1 wa = (Inr (npmPackages (components m1)), wb))
    \<and> (\<exists>wa wb. installNpmPackages e2 wa = (Inr (npmPackages (components m2)), wb))
    \<and> created m1 = now e1 \<and> created m2 = now e2
    \<and> version m1 = ''1.0.0'' \<and> platform m1 = ''linux'' \<and> arch m1 = ''x64''
    \<and> version m2 = ''1.0.0'' \<and> platform m2 = ''linux'' \<and> arch m2 = ''x64''
    \<and> (clangd (components m1) = clangd (components m2)
         \<and> rustAnalyzer (components m1) = rustAnalyzer (components m2)
         \<and> npmPackages (components m1) = npmPackages (components m2)
        \<longrightarrow> m2 = m1\<lparr>created := now e2\<rparr>
          \<and> components m1 = components m2
          \<and> (\<forall>c. JSON_stringify (Manifest_json (m1\<lparr>created := c\<rparr>))
                 = JSON_stringify (Manifest_json (m2\<lparr>created := c\<rparr>))))"
proof -
  from download_main_success_results [OF assms(1)]
  obtain npm1 mode1 wa1 wb1 where
    i1: "installNpmPackages e1 wa1 = (Inr npm1, wb1)" and
    f1: "files (snd (download_main e1 w1)) manifest_path
        = Some (File (JsonDoc (Manifest_json (acquired_manifest e1 RIPGREP_VERSION
            (tag_name (json_body (fetch e1 ''https://api.github.com/repos/clangd/clangd/releases/latest'')))
            (tag_name (json_body (fetch e1 ''https://api.github.com/repos/rust-lang/rust-analyzer/releases/latest'')))
            npm1))) mode1)"
    by blast
  from download_main_success_results [OF assms(2)]
  obtain npm2 mode2 wa2 wb2 where
    i2: "installNpmPackages e2 wa2 = (Inr npm2, wb2)" and
    f2: "files (snd (download_main e2 w2)) manifest_path
        = Some (File (JsonDoc (Manifest_json (acquired_manifest e2 RIPGREP_VERSION
            (tag_name (json_body (fetch e2 ''https://api.github.com/repos/clangd/clangd/releases/latest'')))
            (tag_name (json_body (fetch e2 ''https://api.github.com/repos/rust-lang/rust-analyzer/releases/latest'')))
            npm2))) mode2)"
    by blast
  let ?m1 = "acquired_manifest e1 RIPGREP_VERSION
            (tag_name (json_body (fetch e1 ''https://api.github.com/repos/clangd/clangd/releases/latest'')))
            (tag_name (json_body (fetch e1 ''https://api.github.com/repos/rust-lang/rust-analyzer/releases/latest'')))
            npm1"
  let ?m2 = "acquired_manifest e2 RIPGREP_VERSION
            (tag_name (json_body (fetch e2 ''https://api.github.com/repos/clangd/clangd/releases/latest'')))
            (tag_name (json_body (fetch e2 ''https://api.github.com/repos/rust-lang/rust-analyzer/releases/latest'')))
            npm2"
  have c1: "npmPackages (components ?m1) = npm1" "npmPackages (components ?m2) = npm2"
    by (simp_all add: acquired_manifest_def)
  show ?thesis
    apply (rule exI [of _ ?m1])
    apply (rule exI [of _ ?m2])
    apply (rule exI [of _ mode1])
    apply (rule exI [of _ mode2])
    apply (intro conjI)
                apply (rule f1)
               apply (rule f2)
              apply (simp_all only: c1)
              apply (simp_all add: acquired_manifest_def)
    using i1 i2 apply blast+
    done
qed


theorem pinned_components_deterministic_witness:
  "fst (download_main (env_ok ''2024-05-01T00:00:00.000Z'') world0) = Inr ()
   \<and> fst (download_main (env_ok ''2024-06-01T12:00:00.000Z'') (world0\<lparr>out_log := [''earlier run'']\<rparr>))
       = Inr ()
   \<and> (\<exists>mode1 mode2.
        files (snd (download_main (env_ok ''2024-05-01T00:00:00.000Z'') world0)) manifest_path
          = Some (File (JsonDoc (Manifest_json
              \<lparr>version = ''1.0.0'', created = ''2024-05-01T00:00:00.000Z'', platform = ''linux'',
               arch = ''x64'',
               components = \<lparr>ripgrep = ''14.1.1'', clangd = ''18.1.3'',
                             rustAnalyzer = ''2024-05-06'',
                             npmPackages = [(''pyright'', JStr ''1.1.400'')]\<rparr>\<rparr>)) mode1)
      \<and> files (snd (download_main (env_ok ''2024-06-01T12:00:00.000Z'')
                       (world0\<lparr>out_log := [''earlier run'']\<rparr>))) manifest_path
          = Some (File (JsonDoc (Manifest_json
              \<lparr>version = ''1.0.0'', created = ''2024-06-01T12:00:00.000Z'', platform = ''linux'',
               arch = ''x64'',
               components = \<lparr>ripgrep = ''14.1.1'', clangd = ''18.1.3'',
                             rustAnalyzer = ''2024-05-06'',
                             npmPackages = [(''pyright'', JStr ''1.1.400'')]\<rparr>\<rparr>)) mode2))"
proof -
  let ?t1 = "''2024-05-01T00:00:00.000Z''" and ?t2 = "''2024-06-01T12:00:00.000Z''"
  let ?w2 = "world0\<lparr>out_log := [''earlier run'']\<rparr>"
  have ok1: "fst (download_main (env_ok ?t1) world0) = Inr ()"
    and ok2: "fst (download_main (env_ok ?t2) ?w2) = Inr ()"
    by (rule download_main_env_ok, simp add: world0_def is_file_def)+
  from pinned_components_deterministic [OF ok1 ok2]
  obtain m1 m2 mode1 mode2 wa1 wb1 wa2 wb2 where
    f1: "files (snd (download_main (env_ok ?t1) world0)) manifest_path
          = Some (File (JsonDoc (Manifest_json m1)) mode1)" and
    f2: "files (snd (download_main (env_ok ?t2) ?w2)) manifest_path
          = Some (File (JsonDoc (Manifest_json m2)) mode2)" and
    r: "ripgrep (components m1) = RIPGREP_VERSION" "ripgrep (components m2) = RIPGREP_VERSION" and
    c: "clangd (components m1) = ''18.1.3''" "clangd (components m2) = ''18.1.3''" and
    a: "rustAnalyzer (components m1) = ''2024-05-06''" "rustAnalyzer (components m2) = ''2024-05-06''" and
    n1: "installNpmPackages (env_ok ?t1) wa1 = (Inr (npmPackages (components m1)), wb1)" and
    n2: "installNpmPackages (env_ok ?t2) wa2 = (Inr (npmPackages (components m2)), wb2)" and
    t: "created m1 = now (env_ok ?t1)" "created m2 = now (env_ok ?t2)" and
    k: "version m1 = ''1.0.0''" "platform m1 = ''linux''" "arch m1 = ''x64''"
       "version m2 = ''1.0.0''" "platform m2 = ''linux''" "arch m2 = ''x64''"
    unfolding clangd_asset_env_ok rust_analyzer_asset_env_ok by blast
  from ensuresD [OF ensures_installNpmPackages_env_ok n1]
  have p1: "npmPackages (components m1) = [(''pyright'', JStr ''1.1.400'')]" .
  from ensuresD [OF ensures_installNpmPackages_env_ok n2]
  have p2: "npmPackages (components m2) = [(''pyright'', JStr ''1.1.400'')]" .
  have j1: "Manifest_json m1 = Manifest_json
              \<lparr>version = ''1.0.0'', created = ?t1, platform = ''linux'', arch = ''x64'',
               components = \<lparr>ripgrep = ''14.1.1'', clangd = ''18.1.3'',
                             rustAnalyzer = ''2024-05-06'',
                             npmPackages = [(''pyright'', JStr ''1.1.400'')]\<rparr>\<rparr>"
    using r(1) c(1) a(1) p1 t(1) k by (simp add: Manifest_json_def RIPGREP_VERSION_def env_ok_def)
  have j2: "Manifest_json m2 = Manifest_json
              \<lparr>version = ''1.0.0'', created = ?t2, platform = ''linux'', arch = ''x64'',
               components = \<lparr>ripgrep = ''14.1.1'', clangd = ''18.1.3'',
                             rustAnalyzer = ''2024-05-06'',
                             npmPackages = [(''pyright'', JStr ''1.1.400'')]\<rparr>\<rparr>"
    using r(2) c(2) a(2) p2 t(2) k by (simp add: Manifest_json_def RIPGREP_VERSION_def env_ok_def)
  from f1 f2 ok1 ok2 show ?thesis
    unfolding j1 j2 by blast
qed



section \<open>Properties: the bundle assembler\<close>

lemma tripleD: "triple P m Q \<Longrightarrow> P w \<Longrightarrow> m w = (Inr x, w') \<Longrightarrow> Q x w'"
  by (simp add: triple_def)

lemma triple_thenIO: "keeps P m \<Longrightarrow> triple P n Q \<Longrightarrow> triple P (thenIO m n) Q"
  unfolding triple_def keeps_def thenIO_def bindIO_Inr
  by (metis snd_conv)

lemma bundle_paths:
  "bundle_manifest_path = ''dist/opencode-offline-linux-x64/manifest.json''"
  "path_join [BUNDLE_DIR, ''manifest.json''] = ''dist/opencode-offline-linux-x64/manifest.json''"
  "path_join [BUNDLE_DIR, ''bin''] = ''dist/opencode-offline-linux-x64/bin''"
  "path_join [BUNDLE_DIR, ''deps''] = ''dist/opencode-offline-linux-x64/deps''"
  "path_join [BUNDLE_DIR, ''bin'', ''opencode''] = ''dist/opencode-offline-linux-x64/bin/opencode''"
  "path_join [BUNDLE_DIR, ''deps'', ''opentui''] = ''dist/opencode-offline-linux-x64/deps/opentui''"
  "path_join [BUNDLE_DIR, ''deps'', ''opentui'', ''libopentui.so'']
     = ''dist/opencode-offline-linux-x64/deps/opentui/libopentui.so''"
  "DEPS_DIR @ ''/*'' = ''dist/offline-deps/*''"
  "''dist/opencode-offline-linux-x64/deps'' @ ''/'' = ''dist/opencode-offline-linux-x64/deps/''"
  by code_simp+

lemma keeps_holds_log: "keeps (holds p n) (console_log s)"
  by (simp add: keeps_def holds_def console_log_def)

lemma keeps_holds_rm: "\<not> under d p \<Longrightarrow> keeps (holds p n) (fs_rm d)"
  by (simp add: keeps_def holds_def fs_rm_def)

lemma keeps_holds_mkdir: "keeps (holds p n) (fs_mkdir d)"
  by (simp add: keeps_def holds_def fs_mkdir_def make_dirs_existing split: option.split)

lemma keeps_holds_copyFile: "dst \<noteq> p \<Longrightarrow> keeps (holds p n) (fs_copyFile src dst)"
  by (auto simp: keeps_def holds_def fs_copyFile_def split: option.splits node.splits)

lemma keeps_holds_chmod: "q \<noteq> p \<Longrightarrow> keeps (holds p n) (fs_chmod q k)"
  by (auto simp: keeps_def holds_def fs_chmod_def split: option.splits node.splits)

lemma keeps_holds_copy:
  "copy_leaves_manifest e \<Longrightarrow>
     keeps (holds manifest_path n)
       (shell e [''cp'', ''-r'', ''dist/offline-deps/*'', ''dist/opencode-offline-linux-x64/deps/''])"
  by (auto simp: keeps_def holds_def shell_def bindIO_def spawn_def Let_def throw_def ret_def
        copy_leaves_manifest_def)

lemma inject_result:
  "inject k v (JObj kvs) w = (Inr j, w') \<Longrightarrow>
     files w' = files w \<and> j = JObj (case injected k v of [] \<Rightarrow> kvs | (k', x) # _ \<Rightarrow> set_entry k' x kvs)"
  by (auto simp: inject_def injected_def ret_def bindIO_Inr lift_def set_property_def thenIO_def
        console_log_def split: option.splits if_splits)

lemma bundle_manifest_written:
  "triple (holds manifest_path (File (JsonDoc (Manifest_json m)) k))
     (bindIO (fs_readFile manifest_path) (\<lambda>manifestContent.
      bindIO (lift (JSON_parse manifestContent)) (\<lambda>manifest.
        bindIO (inject ''bundleVersion'' (process_env e ''BUNDLE_VERSION'') manifest) (\<lambda>manifest.
        bindIO (inject ''commitSha'' (process_env e ''BUNDLE_COMMIT_SHA'') manifest) (\<lambda>manifest.
        thenIO (Bun_write bundle_manifest_path (JsonDoc manifest))
          (console_log ''Bundle structure created''))))))
     (\<lambda>_ w. \<exists>mode. files w bundle_manifest_path
        = Some (File (JsonDoc (JObj (entries_of (Manifest_json m)
                  @ injected ''bundleVersion'' (process_env e ''BUNDLE_VERSION'')
                  @ injected ''commitSha'' (process_env e ''BUNDLE_COMMIT_SHA'')))) mode))"
  unfolding triple_def
proof (intro allI impI)
  fix w x w'
  assume P: "holds manifest_path (File (JsonDoc (Manifest_json m)) k) w"
  assume run: "bindIO (fs_readFile manifest_path) (\<lambda>manifestContent.
      bindIO (lift (JSON_parse manifestContent)) (\<lambda>manifest.
        bindIO (inject ''bundleVersion'' (process_env e ''BUNDLE_VERSION'') manifest) (\<lambda>manifest.
        bindIO (inject ''commitSha'' (process_env e ''BUNDLE_COMMIT_SHA'') manifest) (\<lambda>manifest.
        thenIO (Bun_write bundle_manifest_path (JsonDoc manifest))
          (console_log ''Bundle structure created''))))) w = (Inr x, w')"
  let ?kvs = "entries_of (Manifest_json m)"
  have mj: "Manifest_json m = JObj ?kvs"
    by (simp add: Manifest_json_def entries_of_def)
  from P have rd: "fs_readFile manifest_path w = (Inr (JsonDoc (JObj ?kvs)), w)"
    by (simp add: holds_def fs_readFile_def mj [symmetric])
  from run rd obtain j1 wa j2 wb where
    i1: "inject ''bundleVersion'' (process_env e ''BUNDLE_VERSION'') (JObj ?kvs) w = (Inr j1, wa)" and
    i2: "inject ''commitSha'' (process_env e ''BUNDLE_COMMIT_SHA'') j1 wa = (Inr j2, wb)" and
    wr: "thenIO (Bun_write bundle_manifest_path (JsonDoc j2))
          (console_log ''Bundle structure created'') wb = (Inr x, w')"
    by (auto simp: bindIO_Inr lift_def JSON_parse_def)
  have fresh: "set_entry ''bundleVersion'' v ?kvs = ?kvs @ [(''bundleVersion'', v)]"
    "set_entry ''commitSha'' v (?kvs @ extra) = ?kvs @ set_entry ''commitSha'' v extra" for v extra
    by (simp_all add: Manifest_json_def entries_of_def)
  from inject_result [OF i1]
  have j1: "j1 = JObj (?kvs @ injected ''bundleVersion'' (process_env e ''BUNDLE_VERSION''))"
    by (auto simp: injected_def fresh split: option.splits)
  from inject_result [OF i2 [unfolded j1]]
  have j2: "j2 = JObj (?kvs @ injected ''bundleVersion'' (process_env e ''BUNDLE_VERSION'')
      @ injected ''commitSha'' (process_env e ''BUNDLE_COMMIT_SHA''))"
    by (auto simp: injected_def fresh split: option.splits)
  from wr show "\<exists>mode. files w' bundle_manifest_path
        = Some (File (JsonDoc (JObj (?kvs
                  @ injected ''bundleVersion'' (process_env e ''BUNDLE_VERSION'')
                  @ injected ''commitSha'' (process_env e ''BUNDLE_COMMIT_SHA'')))) mode)"
    by (auto simp: thenIO_def bindIO_Inr Bun_write_def console_log_def j2 split: option.splits)
qed

lemma createBundle_manifest:
  assumes "copy_leaves_manifest e"
  shows "triple (holds manifest_path (File (JsonDoc (Manifest_json m)) k))
     (createBundle e buildDir)
     (\<lambda>_ w. \<exists>mode. files w bundle_manifest_path
        = Some (File (JsonDoc (JObj (entries_of (Manifest_json m)
                  @ injected ''bundleVersion'' (process_env e ''BUNDLE_VERSION'')
                  @ injected ''commitSha'' (process_env e ''BUNDLE_COMMIT_SHA'')))) mode))"
proof -
  have nu: "\<not> under BUNDLE_DIR manifest_path"
    "''dist/opencode-offline-linux-x64/bin/opencode'' \<noteq> manifest_path"
    "''dist/opencode-offline-linux-x64/deps/opentui/libopentui.so'' \<noteq> manifest_path"
    by code_simp+
  have fold: "path_join [DEPS_DIR, ''manifest.json''] = manifest_path"
    "path_join [BUNDLE_DIR, ''manifest.json''] = bundle_manifest_path"
    by (simp_all add: manifest_path_def bundle_manifest_path_def)
  show ?thesis
    unfolding createBundle_def Let_def fold bundle_paths(3-)
    by (intro triple_thenIO bundle_manifest_written keeps_holds_log keeps_holds_rm
          keeps_holds_mkdir keeps_holds_copyFile keeps_holds_chmod keeps_holds_copy assms nu)
qed

lemma map_of_injected:
  "map_of (injected k v) k' = (if k' = k then (case v of None \<Rightarrow> None | Some s \<Rightarrow> if s = [] then None else Some (JStr s)) else None)"
  by (simp add: injected_def split: option.splits)

text \<open>
  C4, as the code has it. Let the manifest generator have returned, let the manifest of
  the dependency root be the one it wrote, and let the copy of the dependency root leave
  it alone. When the
  bundle assembler returns, the manifest at the bundle root is a JSON object whose
  properties are those of the generator's manifest, unchanged and in their order,
  followed by \<^verbatim>\<open>bundleVersion\<close> if and only if \<^verbatim>\<open>BUNDLE_VERSION\<close> is set to a non-empty
  string, and by \<^verbatim>\<open>commitSha\<close> if and only if \<^verbatim>\<open>BUNDLE_COMMIT_SHA\<close> is set to a
  non-empty string, each with the value of its variable. No other property is altered.
\<close>

theorem bundle_manifest_round_trip:
  assumes "copy_leaves_manifest e"
    and "fst (createManifest e0 rg cl ra npm w0) = Inr ()"
    and "files w manifest_path = files (snd (createManifest e0 rg cl ra npm w0)) manifest_path"
    and "createBundle e buildDir w = (Inr (), w')"
  shows "\<exists>D mode.
      files w' bundle_manifest_path = Some (File (JsonDoc (JObj D)) mode)
    \<and> D = entries_of (Manifest_json (acquired_manifest e0 rg cl ra npm))
          @ injected ''bundleVersion'' (process_env e ''BUNDLE_VERSION'')
          @ injected ''commitSha'' (process_env e ''BUNDLE_COMMIT_SHA'')
    \<and> take 5 D = entries_of (Manifest_json (acquired_manifest e0 rg cl ra npm))
    \<and> (\<forall>k. k \<noteq> ''bundleVersion'' \<and> k \<noteq> ''commitSha'' \<longrightarrow>
          map_of D k = map_of (entries_of (Manifest_json (acquired_manifest e0 rg cl ra npm))) k)
    \<and> map_of D ''bundleVersion''
        = (case process_env e ''BUNDLE_VERSION'' of
             None \<Rightarrow> None | Some s \<Rightarrow> if s = [] then None else Some (JStr s))
    \<and> map_of D ''commitSha''
        = (case process_env e ''BUNDLE_COMMIT_SHA'' of
             None \<Rightarrow> None | Some s \<Rightarrow> if s = [] then None else Some (JStr s))"
proof -
  let ?m = "acquired_manifest e0 rg cl ra npm"
  let ?D = "entries_of (Manifest_json ?m)
          @ injected ''bundleVersion'' (process_env e ''BUNDLE_VERSION'')
          @ injected ''commitSha'' (process_env e ''BUNDLE_COMMIT_SHA'')"
  from assms(2) have "createManifest e0 rg cl ra npm w0
      = (Inr (), snd (createManifest e0 rg cl ra npm w0))"
    by (metis prod.collapse)
  from createManifest_returned(1) [OF this] assms(3)
  obtain k where "holds manifest_path (File (JsonDoc (Manifest_json ?m)) k) w"
    by (auto simp: holds_def)
  from tripleD [OF createBundle_manifest [OF assms(1)] this assms(4)]
  obtain mode where f: "files w' bundle_manifest_path = Some (File (JsonDoc (JObj ?D)) mode)"
    by blast
  have len: "length (entries_of (Manifest_json ?m)) = 5"
    by (simp add: Manifest_json_def entries_of_def)
  have nb: "map_of (entries_of (Manifest_json ?m)) ''bundleVersion'' = None"
    "map_of (entries_of (Manifest_json ?m)) ''commitSha'' = None"
    by (simp_all add: Manifest_json_def entries_of_def)
  have t5: "take 5 ?D = entries_of (Manifest_json ?m)"
    using len by simp
  have other: "map_of ?D k = map_of (entries_of (Manifest_json ?m)) k"
    if "k \<noteq> ''bundleVersion'' \<and> k \<noteq> ''commitSha''" for k
    using that by (simp add: map_of_append map_add_def map_of_injected split: option.splits)
  have bv: "map_of ?D ''bundleVersion''
        = (case process_env e ''BUNDLE_VERSION'' of
             None \<Rightarrow> None | Some s \<Rightarrow> if s = [] then None else Some (JStr s))"
    by (simp add: map_of_append map_add_def map_of_injected nb split: option.splits)
  have cs: "map_of ?D ''commitSha''
        = (case process_env e ''BUNDLE_COMMIT_SHA'' of
             None \<Rightarrow> None | Some s \<Rightarrow> if s = [] then None else Some (JStr s))"
    by (simp add: map_of_append map_add_def map_of_injected nb split: option.splits)
  show ?thesis
    apply (rule exI [of _ ?D])
    apply (rule exI [of _ mode])
    apply (intro conjI allI impI)
         apply (rule f)
        apply (rule refl)
       apply (rule t5)
      apply (erule other)
     apply (rule bv)
    apply (rule cs)
    done
qed

lemma copy_leaves_manifest_env_ok: "copy_leaves_manifest (env_ok t)"
  by (simp add: copy_leaves_manifest_def env_ok_def deps_paths)

lemma createBundle_env_ok:
  "fst (createBundle (env_ok ''2024-05-01T00:00:00.000Z'') ''build'' world_built) = Inr ()"
  by code_simp

text \<open>With \<^verbatim>\<open>BUNDLE_VERSION\<close> supplied as the empty string the assembler returns and the
  manifest at the bundle root has no \<^verbatim>\<open>bundleVersion\<close>: "if and only if supplied" fails.\<close>

theorem bundle_version_empty_counterexample:
  "process_env env_empty_version ''BUNDLE_VERSION'' = Some []
   \<and> fst (createBundle env_empty_version ''build'' world_built) = Inr ()
   \<and> files (snd (createBundle env_empty_version ''build'' world_built)) bundle_manifest_path
       = Some (File (JsonDoc (JObj
           [(''version'', JStr ''1.0.0''),
            (''created'', JStr ''2024-05-01T00:00:00.000Z''),
            (''platform'', JStr ''linux''),
            (''arch'', JStr ''x64''),
            (''components'', JObj
               [(''ripgrep'', JStr ''14.1.1''),
                (''clangd'', JStr ''18.1.3''),
                (''rustAnalyzer'', JStr ''2024-05-06''),
                (''npmPackages'', JObj [(''pyright'', JStr ''1.1.400'')])])])) 420)"
  by code_simp

theorem bundle_manifest_round_trip_witness:
  "copy_leaves_manifest (env_ok ''2024-05-01T00:00:00.000Z'')
   \<and> fst (createManifest (env_ok ''2024-05-01T00:00:00.000Z'')
            ''14.1.1'' ''18.1.3'' ''2024-05-06'' [(''pyright'', JStr ''1.1.400'')] world0) = Inr ()
   \<and> files world_built manifest_path
       = files (snd (createManifest (env_ok ''2024-05-01T00:00:00.000Z'')
            ''14.1.1'' ''18.1.3'' ''2024-05-06'' [(''pyright'', JStr ''1.1.400'')] world0)) manifest_path
   \<and> fst (createBundle (env_ok ''2024-05-01T00:00:00.000Z'') ''build'' world_built) = Inr ()
   \<and> (\<exists>mode. files (snd (createBundle (env_ok ''2024-05-01T00:00:00.000Z'') ''build'' world_built))
          bundle_manifest_path
       = Some (File (JsonDoc (JObj
           [(''version'', JStr ''1.0.0''),
            (''created'', JStr ''2024-05-01T00:00:00.000Z''),
            (''platform'', JStr ''linux''),
            (''arch'', JStr ''x64''),
            (''components'', JObj
               [(''ripgrep'', JStr ''14.1.1''),
                (''clangd'', JStr ''18.1.3''),
                (''rustAnalyzer'', JStr ''2024-05-06''),
                (''npmPackages'', JObj [(''pyright'', JStr ''1.1.400'')])]),
            (''bundleVersion'', JStr ''v1.2.3'')])) mode))"
proof -
  let ?e = "env_ok ''2024-05-01T00:00:00.000Z''"
  have h2: "files world_built manifest_path
       = files (snd (createManifest ?e ''14.1.1'' ''18.1.3'' ''2024-05-06''
            [(''pyright'', JStr ''1.1.400'')] world0)) manifest_path"
    by (simp add: createManifest_result world_built_def world0_def deps_paths(1)
          write_error_def deps_ancestors is_file_def)
  have h1: "fst (createManifest ?e ''14.1.1'' ''18.1.3'' ''2024-05-06''
            [(''pyright'', JStr ''1.1.400'')] world0) = Inr ()"
    by (simp add: createManifest_result world0_def deps_paths(1)
          write_error_def deps_ancestors is_file_def)
  have h3: "createBundle ?e ''build'' world_built
      = (Inr (), snd (createBundle ?e ''build'' world_built))"
    using createBundle_env_ok by (metis prod.collapse)
  have pe: "process_env ?e ''BUNDLE_VERSION'' = Some ''v1.2.3''"
    "process_env ?e ''BUNDLE_COMMIT_SHA'' = None"
    by (simp_all add: env_ok_def)
  from bundle_manifest_round_trip [OF copy_leaves_manifest_env_ok h1 h2 h3]
  obtain D mode where
    "files (snd (createBundle ?e ''build'' world_built)) bundle_manifest_path
       = Some (File (JsonDoc (JObj D)) mode)"
    "D = entries_of (Manifest_json (acquired_manifest ?e ''14.1.1'' ''18.1.3'' ''2024-05-06''
            [(''pyright'', JStr ''1.1.400'')]))
          @ injected ''bundleVersion'' (process_env ?e ''BUNDLE_VERSION'')
          @ injected ''commitSha'' (process_env ?e ''BUNDLE_COMMIT_SHA'')"
    by blast
  then have "files (snd (createBundle ?e ''build'' world_built)) bundle_manifest_path
       = Some (File (JsonDoc (JObj
           [(''version'', JStr ''1.0.0''),
            (''created'', JStr ''2024-05-01T00:00:00.000Z''),
            (''platform'', JStr ''linux''),
            (''arch'', JStr ''x64''),
            (''components'', JObj
               [(''ripgrep'', JStr ''14.1.1''),
                (''clangd'', JStr ''18.1.3''),
                (''rustAnalyzer'', JStr ''2024-05-06''),
                (''npmPackages'', JObj [(''pyright'', JStr ''1.1.400'')])]),
            (''bundleVersion'', JStr ''v1.2.3'')])) mode)"
    by (simp add: pe injected_def Manifest_json_def entries_of_def acquired_manifest_def env_ok_def)
  with copy_leaves_manifest_env_ok h1 h2 createBundle_env_ok show ?thesis
    by blast
qed

end
